theory Spec2Isabelle
  imports Complex_Main "HOL-Library.Word" "HOL-Library.Monad_Syntax"
begin

unbundle bit_operations_syntax

section \<open>JavaScript numbers\<close>

text \<open>
  The library is written in JavaScript, whose only numeric type is the IEEE double.
  Two kinds of Number occur in \<^verbatim>\<open>waveline-bg.js\<close>:
  \<^item> Numbers that hold integers (the seed, the PRNG accumulator, grid sizes, loop
    counters). They are \<open>nat\<close> or \<open>int\<close>, and \<open>32 word\<close> wherever the source applies a
    bitwise operator or \<^verbatim>\<open>Math.imul\<close> (both convert their operands modulo \<open>2 ^ 32\<close>).
    The PRNG accumulator grows with every draw, so its addition is modelled with the
    rounding of doubles written out (\<open>round_double\<close>); sizes and counters stay below
    \<open>2 ^ 53\<close>, where doubles hold integers exactly, in every run that ends.
  \<^item> Numbers that hold measurements (phases, field values, thresholds, coordinates,
    stroke widths). They are modelled as \<open>real\<close>, and the operations on them are exact:
    the rounding of each double operation is left out. It is written out in two places,
    with \<open>binary64_round\<close>: the product \<^verbatim>\<open>Math.random() * 1e9\<close> behind the default seed,
    whose floor depends on it, and a second form of the threshold loop
    (\<open>levels_loop_with\<close>), which rounds after every operation as the code does and shows
    where the exact form says more than holds of the doubles.
\<close>

type_synonym u32 = "32 word"

text \<open>
  A double has a 53-bit significand. \<open>ulp_exp n\<close> is the number of low bits of the
  non-negative integer \<open>n\<close> that do not fit; \<open>round_double n\<close> is the double nearest to
  \<open>n\<close>, ties going to the even significand (the IEEE default rounding).
\<close>

function ulp_exp :: "nat \<Rightarrow> nat" where
  "ulp_exp n = (if n < 2 ^ 53 then 0 else Suc (ulp_exp (n div 2)))"
  by pat_completeness auto
termination
  by (relation "measure (\<lambda>n. n)") auto

declare ulp_exp.simps [simp del]

definition round_double :: "nat \<Rightarrow> nat" where
  "round_double n =
     (let e = ulp_exp n; q = n div 2 ^ e; r = n mod 2 ^ e in
      if 2 * r < 2 ^ e then q * 2 ^ e
      else if 2 ^ e < 2 * r then (q + 1) * 2 ^ e
      else (if even q then q else q + 1) * 2 ^ e)"

text \<open>\<^verbatim>\<open>a + b\<close> on two Numbers that hold non-negative integers.\<close>

definition num_add :: "nat \<Rightarrow> nat \<Rightarrow> nat" where
  "num_add a b = round_double (a + b)"

text \<open>\<^verbatim>\<open>x >>> 0\<close> on a Number that holds an integer: the value modulo \<open>2 ^ 32\<close>.\<close>

definition ToUint32 :: "int \<Rightarrow> u32" where
  "ToUint32 x = word_of_int x"

text \<open>\<^verbatim>\<open>Math.imul(a, b)\<close>: the low 32 bits of the product.\<close>

definition imul :: "u32 \<Rightarrow> u32 \<Rightarrow> u32" where
  "imul a b = a * b"

subsection \<open>Rounding to a double\<close>

text \<open>
  The result of an arithmetic operation on doubles is the exact result rounded to the
  nearest double, ties going to the even significand. A double is an integer multiple
  of its quantum: \<open>2 powi (e - 52)\<close> for a magnitude in \<open>[2 powi e, 2 powi (e + 1))\<close>, and
  \<open>2 powi (- 1074)\<close> below \<open>2 powi (- 1022)\<close>, where doubles are subnormal.
  \<open>round_even q\<close> is the integer nearest to \<open>q\<close>, the even one of the two at a tie, and
  \<open>binary64_round x\<close> the multiple of the quantum nearest to \<open>x\<close>. From \<open>2 ^ 1024\<close> on the
  rounded magnitude is no double: the operation gives \<^verbatim>\<open>Infinity\<close> or \<^verbatim>\<open>-Infinity\<close>, which is
  \<open>None\<close> in \<open>binary64\<close>.
\<close>

definition round_even :: "real \<Rightarrow> int" where
  "round_even q =
     (let n = \<lfloor>q\<rfloor>; r = q - of_int n in
      if r < 1 / 2 then n
      else if 1 / 2 < r then n + 1
      else if even n then n else n + 1)"

definition binary64_round :: "real \<Rightarrow> real" where
  "binary64_round x =
     (if x = 0 then 0
      else (let e = max \<lfloor>log 2 \<bar>x\<bar>\<rfloor> (- 1022);
                q = 2 powi (e - 52)
            in of_int (round_even (x / q)) * q))"




section \<open>PRNG\<close>

text \<open>
  \<^verbatim>\<open>mulberry32(seed)\<close> returns a closure over its parameter \<^verbatim>\<open>seed\<close>, which every call
  of the closure updates. The closure is the record \<open>rng\<close> holding that variable, and
  \<open>mulberry32_next\<close> is one call of it: the drawn value and the closure afterwards.

  \<^verbatim>\<open>var t = seed += 0x6D2B79F5\<close> is an addition of Numbers: the accumulator is not
  reduced modulo \<open>2 ^ 32\<close>, only the operands of the bitwise operators that follow are.
\<close>

record rng =
  rng_seed :: nat

definition mulberry32 :: "nat \<Rightarrow> rng" where
  "mulberry32 seed = \<lparr>rng_seed = seed\<rparr>"

definition mulberry32_next :: "rng \<Rightarrow> real \<times> rng" where
  "mulberry32_next g =
     (let seed' = num_add (rng_seed g) 0x6D2B79F5;
          t = (word_of_nat seed' :: u32);
          t = imul (t XOR drop_bit 15 t) (t OR 1);
          t = t XOR (t + imul (t XOR drop_bit 7 t) (t OR 61))
      in (real (unat (t XOR drop_bit 14 t)) / 4294967296, g\<lparr>rng_seed := seed'\<rparr>))"

text \<open>The value of the call number \<open>n\<close> (counted from 0) of a closure.\<close>

fun nth_draw :: "rng \<Rightarrow> nat \<Rightarrow> real" where
  "nth_draw g 0 = fst (mulberry32_next g)"
| "nth_draw g (Suc n) = nth_draw (snd (mulberry32_next g)) n"

subsection \<open>Mulberry32 as the specification describes it\<close>

text \<open>
  The reference algorithm: a 32-bit accumulator, increased by \<open>0x6D2B79F5\<close> with
  wrap-around at every draw, then mixed by two xor-shift-multiply rounds whose products
  keep their low 32 bits; the result is the mixed word divided by \<open>2 ^ 32\<close>.
\<close>

definition Mulberry32_mix :: "u32 \<Rightarrow> u32" where
  "Mulberry32_mix a =
     (let z1 = (a XOR drop_bit 15 a) * (a OR 1);
          z2 = z1 XOR (z1 + (z1 XOR drop_bit 7 z1) * (z1 OR 61))
      in z2 XOR drop_bit 14 z2)"

fun Mulberry32_nth :: "u32 \<Rightarrow> nat \<Rightarrow> real" where
  "Mulberry32_nth a 0 = real (unat (Mulberry32_mix (a + 0x6D2B79F5))) / 2 ^ 32"
| "Mulberry32_nth a (Suc n) = Mulberry32_nth (a + 0x6D2B79F5) n"

section \<open>Scalar field\<close>

text \<open>
  The body of the inner loop of \<^verbatim>\<open>generateField\<close>: the value of the cell in column \<open>i\<close>
  of row \<open>j\<close>. \<open>f\<close> is the normalised frequency \<^verbatim>\<open>freq / 10\<close>.
\<close>

definition field_cell ::
  "nat \<Rightarrow> nat \<Rightarrow> real \<Rightarrow> real \<Rightarrow> real \<Rightarrow> real \<Rightarrow> real \<Rightarrow> nat \<Rightarrow> nat \<Rightarrow> real" where
  "field_cell gridW gridH f amplitude phase1 phase2 phase3 i j =
     (let nx = real i / real gridW - 0.5;
          ny = real j / real gridH - 0.5;
          v1 = sin (nx * pi * 2 * f + phase1) + sin (ny * pi * 2 * f * 0.9 + phase2);
          v2 = 0.6 * sin ((nx + ny) * pi * 2 * f * 0.7 + phase3);
          v3 = 0.4 * sin ((nx - ny) * pi * 2 * f * 0.5 - phase2)
      in (v1 + v2 + v3) * amplitude)"

text \<open>
  The two loops, \<^verbatim>\<open>for (var i = 0; i < gridW; i++)\<close> inside
  \<^verbatim>\<open>for (var j = 0; j < gridH; j++)\<close>, each pushing onto \<^verbatim>\<open>values\<close>.
\<close>

function field_row :: "(nat \<Rightarrow> nat \<Rightarrow> real) \<Rightarrow> nat \<Rightarrow> nat \<Rightarrow> nat \<Rightarrow> real list \<Rightarrow> real list" where
  "field_row cell gridW j i values =
     (if i < gridW then field_row cell gridW j (Suc i) (values @ [cell i j]) else values)"
  by pat_completeness auto
termination
  by (relation "measure (\<lambda>(cell, gridW, j, i, values). gridW - i)") auto

declare field_row.simps [simp del]

function field_rows :: "(nat \<Rightarrow> nat \<Rightarrow> real) \<Rightarrow> nat \<Rightarrow> nat \<Rightarrow> nat \<Rightarrow> real list \<Rightarrow> real list" where
  "field_rows cell gridW gridH j values =
     (if j < gridH then field_rows cell gridW gridH (Suc j) (field_row cell gridW j 0 values)
      else values)"
  by pat_completeness auto
termination
  by (relation "measure (\<lambda>(cell, gridW, gridH, j, values). gridH - j)") auto

declare field_rows.simps [simp del]

text \<open>
  \<^verbatim>\<open>generateField\<close>, with the closure \<^verbatim>\<open>rnd\<close> it leaves behind (the source drops it on
  return; it is kept here so that the number of draws can be stated).
\<close>

definition generateField_run :: "nat \<Rightarrow> nat \<Rightarrow> real \<Rightarrow> real \<Rightarrow> int \<Rightarrow> real list \<times> rng" where
  "generateField_run gridW gridH freq amplitude seed =
     (let rnd = mulberry32 (unat (ToUint32 seed));
          (r1, rnd) = mulberry32_next rnd;
          phase1 = r1 * pi * 2;
          (r2, rnd) = mulberry32_next rnd;
          phase2 = r2 * pi * 2;
          (r3, rnd) = mulberry32_next rnd;
          phase3 = r3 * pi * 2;
          f = freq / 10;
          values = field_rows (field_cell gridW gridH f amplitude phase1 phase2 phase3)
                     gridW gridH 0 []
      in (values, rnd))"

definition generateField :: "nat \<Rightarrow> nat \<Rightarrow> real \<Rightarrow> real \<Rightarrow> int \<Rightarrow> real list" where
  "generateField gridW gridH freq amplitude seed =
     fst (generateField_run gridW gridH freq amplitude seed)"

section \<open>Language built-ins\<close>

text \<open>
  The conversion of a Number to a string (\<^verbatim>\<open>'' + x\<close>) is a function of the language, not
  of the library, and its result depends on the double that holds the Number. It is a
  parameter of the model.
\<close>

record builtins =
  num_str :: "real \<Rightarrow> string"

text \<open>
  \<^verbatim>\<open>String.prototype.trim\<close> on a byte string: the white space and line terminators of
  ASCII are removed from both ends.
\<close>

definition is_space :: "char \<Rightarrow> bool" where
  "is_space c \<longleftrightarrow> c \<in> {CHR '' '', CHR 0x09, CHR 0x0A, CHR 0x0B, CHR 0x0C, CHR 0x0D}"

definition trim :: "string \<Rightarrow> string" where
  "trim s = rev (dropWhile is_space (rev (dropWhile is_space s)))"

text \<open>The decimal digits of an integer, as \<^verbatim>\<open>'' + n\<close> writes an integer below \<open>10 ^ 21\<close>.\<close>

definition digit_char :: "nat \<Rightarrow> char" where
  "digit_char d = ''0123456789'' ! d"

function nat_str :: "nat \<Rightarrow> string" where
  "nat_str n = (if n < 10 then [digit_char n] else nat_str (n div 10) @ [digit_char (n mod 10)])"
  by pat_completeness auto
termination
  by (relation "measure (\<lambda>n. n)") auto

declare nat_str.simps [simp del]

definition int_str :: "int \<Rightarrow> string" where
  "int_str i = (if i < 0 then ''-'' @ nat_str (nat (- i)) else nat_str (nat i))"

text \<open>\<^verbatim>\<open>a % b\<close> on Numbers that hold integers, \<open>b\<close> not 0: the sign of the dividend.\<close>

definition js_rem :: "int \<Rightarrow> int \<Rightarrow> int" where
  "js_rem a b = sgn a * (\<bar>a\<bar> mod \<bar>b\<bar>)"

text \<open>
  \<^verbatim>\<open>x.toFixed(f)\<close> as ECMAScript defines \<^verbatim>\<open>Number.prototype.toFixed\<close> on a finite Number and
  for \<open>f\<close> up to 100: the sign is set aside; from \<open>10 ^ 21\<close> on the result is the text of the Number as \<^verbatim>\<open>'' + x\<close>
  gives it (exponent notation); below, \<open>n\<close> is the integer nearest to \<open>x * 10 ^ f\<close> (the
  larger of two), its digits are filled with zeros on the left to \<open>f + 1\<close> digits, and a
  point is put before the last \<open>f\<close> of them.
\<close>

definition toFixed :: "builtins \<Rightarrow> real \<Rightarrow> nat \<Rightarrow> string" where
  "toFixed B x f =
     (let s = (if x < 0 then ''-'' else []);
          x = \<bar>x\<bar>
      in if 10 ^ 21 \<le> x then s @ num_str B x
         else (let n = nat \<lfloor>x * 10 ^ f + 1 / 2\<rfloor>;
                   m = nat_str n
               in if f \<noteq> 0
                  then (let m = replicate (Suc f - length m) CHR ''0'' @ m;
                            k = length m
                        in s @ take (k - f) m @ ''.'' @ drop (k - f) m)
                  else s @ m))"

section \<open>Contour to SVG path\<close>

text \<open>
  A contour of d3-contour is a GeoJSON MultiPolygon: \<^verbatim>\<open>coordinates\<close> is a list of
  polygons, a polygon a list of rings, a ring a list of points \<^verbatim>\<open>[x, y]\<close>.
\<close>

type_synonym point = "real \<times> real"
type_synonym ring = "point list"
type_synonym polygon = "ring list"

record contour =
  coordinates :: "polygon list"

text \<open>
  The three nested \<^verbatim>\<open>forEach\<close> of \<^verbatim>\<open>contourToPath\<close>, innermost first. Each appends to
  the string \<^verbatim>\<open>d\<close>; the innermost one knows the index \<^verbatim>\<open>idx\<close> of its point.
\<close>

fun path_points ::
  "builtins \<Rightarrow> real \<Rightarrow> real \<Rightarrow> real \<Rightarrow> real \<Rightarrow> ring \<Rightarrow> nat \<Rightarrow> string \<Rightarrow> string" where
  "path_points B sx sy ox oy [] idx d = d"
| "path_points B sx sy ox oy (pt # pts) idx d =
     (let x = fst pt * sx - ox;
          y = snd pt * sy - oy
      in path_points B sx sy ox oy pts (Suc idx)
           (d @ (if idx = 0 then ''M '' else ''L '') @ toFixed B x 3 @ '' '' @ toFixed B y 3 @ '' ''))"

fun path_rings ::
  "builtins \<Rightarrow> real \<Rightarrow> real \<Rightarrow> real \<Rightarrow> real \<Rightarrow> polygon \<Rightarrow> string \<Rightarrow> string" where
  "path_rings B sx sy ox oy [] d = d"
| "path_rings B sx sy ox oy (ring # rings) d =
     path_rings B sx sy ox oy rings (path_points B sx sy ox oy ring 0 d @ ''Z '')"

fun path_polys ::
  "builtins \<Rightarrow> real \<Rightarrow> real \<Rightarrow> real \<Rightarrow> real \<Rightarrow> polygon list \<Rightarrow> string \<Rightarrow> string" where
  "path_polys B sx sy ox oy [] d = d"
| "path_polys B sx sy ox oy (poly # polys) d =
     path_polys B sx sy ox oy polys (path_rings B sx sy ox oy poly d)"

definition contourToPath :: "builtins \<Rightarrow> contour \<Rightarrow> real \<Rightarrow> real \<Rightarrow> real \<Rightarrow> real \<Rightarrow> string" where
  "contourToPath B contour sx sy ox oy =
     trim (path_polys B sx sy ox oy (coordinates contour) [])"

subsection \<open>The path as the specification describes it\<close>

text \<open>
  A path is a sequence of move, line and close operations. A ring gives a move to its
  first point, a line to each point after it, and one close; every point is mapped by
  \<open>x' = x * scaleX - offsetX\<close>, \<open>y' = y * scaleY - offsetY\<close>.
\<close>

datatype path_op = Move real real | Line real real | Close

definition map_point :: "real \<Rightarrow> real \<Rightarrow> real \<Rightarrow> real \<Rightarrow> point \<Rightarrow> point" where
  "map_point scaleX scaleY offsetX offsetY p =
     (fst p * scaleX - offsetX, snd p * scaleY - offsetY)"

fun ring_ops :: "real \<Rightarrow> real \<Rightarrow> real \<Rightarrow> real \<Rightarrow> ring \<Rightarrow> path_op list" where
  "ring_ops scaleX scaleY offsetX offsetY [] = [Close]"
| "ring_ops scaleX scaleY offsetX offsetY (p # ps) =
     (case map_point scaleX scaleY offsetX offsetY p of (x, y) \<Rightarrow> Move x y)
     # map (\<lambda>q. case map_point scaleX scaleY offsetX offsetY q of (x, y) \<Rightarrow> Line x y) ps
     @ [Close]"

definition contour_ops :: "real \<Rightarrow> real \<Rightarrow> real \<Rightarrow> real \<Rightarrow> contour \<Rightarrow> path_op list" where
  "contour_ops scaleX scaleY offsetX offsetY c =
     concat (map (ring_ops scaleX scaleY offsetX offsetY) (concat (coordinates c)))"

text \<open>An operation as text: its letter, then its coordinates with 3 fractional digits.\<close>

fun op_text :: "builtins \<Rightarrow> path_op \<Rightarrow> string" where
  "op_text B (Move x y) = ''M '' @ toFixed B x 3 @ '' '' @ toFixed B y 3 @ '' ''"
| "op_text B (Line x y) = ''L '' @ toFixed B x 3 @ '' '' @ toFixed B y 3 @ '' ''"
| "op_text B Close = ''Z ''"

text \<open>
  A text with exactly 3 fractional digits: an optional minus sign, one digit or more, a
  point, three digits.
\<close>

definition is_digit :: "char \<Rightarrow> bool" where
  "is_digit c \<longleftrightarrow> c \<in> set ''0123456789''"

definition three_fraction_digits :: "string \<Rightarrow> bool" where
  "three_fraction_digits t =
     (let u = (case t of c # cs \<Rightarrow> if c = CHR ''-'' then cs else t | [] \<Rightarrow> t);
          whole = takeWhile is_digit u
      in whole \<noteq> [] \<and>
         (case dropWhile is_digit u of
            c # rest \<Rightarrow> c = CHR ''.'' \<and> length rest = 3 \<and> list_all is_digit rest
          | [] \<Rightarrow> False))"

section \<open>Bias and thresholds\<close>

text \<open>
  \<^verbatim>\<open>Math.pow(x, y)\<close> is \<open>x powr y\<close> for \<open>0 \<le> x\<close> and \<open>0 < y\<close>, which is how \<^verbatim>\<open>applyBias\<close>
  is called: \<open>u\<close> is in \<open>[0, 1]\<close> and both exponents are above 1.
\<close>

definition applyBias :: "real \<Rightarrow> real \<Rightarrow> real" where
  "applyBias u bias =
     (if bias = 0 then u
      else if bias > 0 then u powr (1 + bias)
      else 1 - (1 - u) powr (1 - bias))"

text \<open>
  \<^verbatim>\<open>Math.min.apply(null, field)\<close> and \<^verbatim>\<open>Math.max.apply(null, field)\<close>. Of an empty array
  they are \<^verbatim>\<open>Infinity\<close> and \<^verbatim>\<open>-Infinity\<close>, which no \<open>real\<close> is: \<open>None\<close>.
\<close>

fun Math_min :: "real list \<Rightarrow> real option" where
  "Math_min [] = None"
| "Math_min (x # xs) = Some (fold min xs x)"

fun Math_max :: "real list \<Rightarrow> real option" where
  "Math_max [] = None"
| "Math_max (x # xs) = Some (fold max xs x)"

text \<open>The loop \<^verbatim>\<open>for (var k = 1; k <= density; k++)\<close> pushing onto \<^verbatim>\<open>levels\<close>.\<close>

function levels_loop :: "real \<Rightarrow> real \<Rightarrow> nat \<Rightarrow> real \<Rightarrow> nat \<Rightarrow> real list \<Rightarrow> real list" where
  "levels_loop mn mx density bias k levels =
     (if k \<le> density
      then (let u = real k / (real density + 1)
            in levels_loop mn mx density bias (Suc k)
                 (levels @ [mn + applyBias u bias * (mx - mn)]))
      else levels)"
  by pat_completeness auto
termination
  by (relation "measure (\<lambda>(mn, mx, density, bias, k, levels). Suc density - k)") auto

declare levels_loop.simps [simp del]

text \<open>Lines 177 to 185 of \<^verbatim>\<open>generateWavelineSvg\<close>: the thresholds of a field.\<close>

definition compute_levels :: "real list \<Rightarrow> nat \<Rightarrow> real \<Rightarrow> real list option" where
  "compute_levels field density bias =
     (case (Math_min field, Math_max field) of
        (Some mn, Some mx) \<Rightarrow> Some (levels_loop mn mx density bias 1 [])
      | _ \<Rightarrow> None)"

subsection \<open>The thresholds with every operation rounded\<close>






section \<open>Options and the world around a call\<close>

text \<open>
  The contour extraction is not part of the library: it is the global \<^verbatim>\<open>d3\<close>, which may
  be missing, or present without \<^verbatim>\<open>contours\<close>. What
  \<^verbatim>\<open>d3.contours().size([w, h]).smooth(s).thresholds(levels)(field)\<close> returns is a
  parameter: a function of the size, the smoothing flag, the thresholds and the field.
\<close>

type_synonym extractor = "nat \<times> nat \<Rightarrow> bool \<Rightarrow> real list \<Rightarrow> real list \<Rightarrow> contour list"

record d3_lib =
  contours :: "extractor option"

text \<open>
  The state outside a call that \<^verbatim>\<open>generateWavelineSvg\<close> can read or change: the global
  \<^verbatim>\<open>d3\<close>, and the generator behind \<^verbatim>\<open>Math.random()\<close>, a sequence of doubles in \<open>[0, 1)\<close>
  with the position of the next one.
\<close>

record world =
  rand_src :: "nat \<Rightarrow> real"
  rand_pos :: nat
  d3 :: "d3_lib option"

definition Math_random :: "world \<Rightarrow> real \<times> world" where
  "Math_random w = (rand_src w (rand_pos w), w\<lparr>rand_pos := Suc (rand_pos w)\<rparr>)"

text \<open>\<^verbatim>\<open>typeof d3 === 'undefined' || !d3.contours\<close> holds exactly when this is \<open>None\<close>.\<close>

definition d3_contours :: "world \<Rightarrow> extractor option" where
  "d3_contours w = (case d3 w of None \<Rightarrow> None | Some lib \<Rightarrow> contours lib)"

text \<open>
  The options object. A property that is absent (\<^verbatim>\<open>undefined\<close>) is \<open>None\<close>. Sizes and the
  density are natural numbers, the seed an integer, colours strings. The fields carry the
  prefix \<open>opt_\<close>, and the local variables they are resolved to the prefix \<open>cfg_\<close>, which
  leaves the names of the source free for variables.
\<close>

record options =
  opt_width :: "real option"
  opt_height :: "real option"
  opt_gridWidth :: "nat option"
  opt_gridHeight :: "nat option"
  opt_density :: "nat option"
  opt_freq :: "real option"
  opt_amplitude :: "real option"
  opt_strokeMin :: "real option"
  opt_strokeMax :: "real option"
  opt_opacityMin :: "real option"
  opt_opacityMax :: "real option"
  opt_bias :: "real option"
  opt_seed :: "int option"
  opt_strokeColor :: "string option"
  opt_backgroundColor :: "string option"

text \<open>The object \<^verbatim>\<open>{}\<close> that stands for a missing argument (\<^verbatim>\<open>options = options || {}\<close>).\<close>

definition no_options :: options where
  "no_options =
     \<lparr>opt_width = None, opt_height = None, opt_gridWidth = None, opt_gridHeight = None,
      opt_density = None, opt_freq = None, opt_amplitude = None, opt_strokeMin = None,
      opt_strokeMax = None, opt_opacityMin = None, opt_opacityMax = None, opt_bias = None,
      opt_seed = None, opt_strokeColor = None, opt_backgroundColor = None\<rparr>"

text \<open>
  The options are documented in the table of \<^verbatim>\<open>README.md\<close>, to which the comment above
  \<^verbatim>\<open>generateWavelineSvg\<close> refers (line 129). Its defaults are the constants of lines 136 to
  157 but for one: the default of \<^verbatim>\<open>strokeColor\<close>, which the table (line 155) gives as
\<close>

definition README_strokeColor :: string where
  "README_strokeColor = ''#d4d4d4''"

text \<open>
  \<^verbatim>\<open>a || b\<close> on Numbers: \<open>b\<close> when \<open>a\<close> is 0. On an option that may be absent: the
  default also when it is absent. On strings: the default when the string is empty.
  \<^verbatim>\<open>v !== undefined ? v : b\<close> takes the default only when the option is absent.
\<close>

definition js_or :: "'a::zero \<Rightarrow> 'a \<Rightarrow> 'a" where
  "js_or a b = (if a = 0 then b else a)"

definition or_num :: "'a::zero option \<Rightarrow> 'a \<Rightarrow> 'a" where
  "or_num v b = (case v of None \<Rightarrow> b | Some a \<Rightarrow> js_or a b)"

definition or_str :: "string option \<Rightarrow> string \<Rightarrow> string" where
  "or_str v b = (case v of None \<Rightarrow> b | Some a \<Rightarrow> if a = [] then b else a)"

definition if_defined :: "'a option \<Rightarrow> 'a \<Rightarrow> 'a" where
  "if_defined v b = (case v of None \<Rightarrow> b | Some a \<Rightarrow> a)"

text \<open>
  The local variables of \<^verbatim>\<open>generateWavelineSvg\<close> that lines 136 to 157 set. The default
  seed is \<^verbatim>\<open>Math.floor(Math.random() * 1e9)\<close>: the floor of the product as a double, which
  is below \<open>10 ^ 9\<close> and so far from overflow.
\<close>

record resolved =
  cfg_width :: real
  cfg_height :: real
  cfg_gridWidth :: nat
  cfg_gridHeight :: nat
  cfg_density :: nat
  cfg_freq :: real
  cfg_amplitude :: real
  cfg_strokeMin :: real
  cfg_strokeMax :: real
  cfg_opacityMin :: real
  cfg_opacityMax :: real
  cfg_bias :: real
  cfg_seed :: int
  cfg_strokeColor :: string
  cfg_bgColor :: string

definition resolve_options :: "options \<Rightarrow> world \<Rightarrow> resolved \<times> world" where
  "resolve_options options w =
     (let width = or_num (opt_width options) 100;
          height = or_num (opt_height options) 56.25;
          gridWidth = or_num (opt_gridWidth options) 160;
          gridHeight = or_num (opt_gridHeight options) 90;
          density = or_num (opt_density options) 10;
          freq = or_num (opt_freq options) 5;
          amplitude = or_num (opt_amplitude options) 1.0;
          strokeMin = if_defined (opt_strokeMin options) 0.16;
          strokeMax = if_defined (opt_strokeMax options) 0.26;
          opacityMin = if_defined (opt_opacityMin options) 0.5;
          opacityMax = if_defined (opt_opacityMax options) 1.0;
          bias = or_num (opt_bias options) 0;
          (seed, w') = (case opt_seed options of
                          Some s \<Rightarrow> (s, w)
                        | None \<Rightarrow> (let (r, w') = Math_random w
                                   in (\<lfloor>binary64_round (r * 1000000000)\<rfloor>, w')));
          strokeColor = or_str (opt_strokeColor options) ''#888888'';
          bgColor = or_str (opt_backgroundColor options) ''transparent''
      in (\<lparr>cfg_width = width, cfg_height = height, cfg_gridWidth = gridWidth,
           cfg_gridHeight = gridHeight, cfg_density = density, cfg_freq = freq,
           cfg_amplitude = amplitude, cfg_strokeMin = strokeMin, cfg_strokeMax = strokeMax,
           cfg_opacityMin = opacityMin, cfg_opacityMax = opacityMax, cfg_bias = bias,
           cfg_seed = seed, cfg_strokeColor = strokeColor, cfg_bgColor = bgColor\<rparr>, w'))"

section \<open>SVG generation\<close>

text \<open>
  What a call does: it returns a value, or throws an \<^verbatim>\<open>Error\<close> with a message, or goes on
  with a Number that is \<^verbatim>\<open>Infinity\<close> or \<^verbatim>\<open>NaN\<close>, which \<open>real\<close> does not hold. The last
  happens when \<^verbatim>\<open>gridWidth\<close> or \<^verbatim>\<open>gridHeight\<close> is 1, where the scale is a division by 0.
\<close>

datatype 'a outcome = Returns 'a | Throws string | NonFinite

text \<open>Line 176, and lines 177 to 185, on the resolved variables.\<close>

definition run_field :: "resolved \<Rightarrow> real list" where
  "run_field c =
     generateField (cfg_gridWidth c) (cfg_gridHeight c) (cfg_freq c) (cfg_amplitude c) (cfg_seed c)"

definition run_levels :: "resolved \<Rightarrow> real list option" where
  "run_levels c = compute_levels (run_field c) (cfg_density c) (cfg_bias c)"

text \<open>Line 196.\<close>

definition clipId :: "int \<Rightarrow> string" where
  "clipId seed = ''wlbg-'' @ int_str (js_rem seed 999983)"

text \<open>The markup before the paths (lines 198 to 206) and the markup of one path.\<close>

definition svg_open :: "builtins \<Rightarrow> resolved \<Rightarrow> string" where
  \<open>svg_open B c =
     ''<svg xmlns="http://www.w3.org/2000/svg"''
     @ '' viewBox="0 0 '' @ num_str B (cfg_width c) @ '' '' @ num_str B (cfg_height c) @ ''"''
     @ '' preserveAspectRatio="xMidYMid slice">''
     @ ''<defs><clipPath id="'' @ clipId (cfg_seed c) @ ''">''
     @ ''<rect x="0" y="0" width="'' @ num_str B (cfg_width c)
         @ ''" height="'' @ num_str B (cfg_height c) @ ''"/>''
     @ ''</clipPath></defs>''
     @ ''<rect width="'' @ num_str B (cfg_width c) @ ''" height="'' @ num_str B (cfg_height c)
         @ ''" fill="'' @ cfg_bgColor c @ ''"/>''
     @ ''<g clip-path="url(#'' @ clipId (cfg_seed c) @ '')">''\<close>

definition path_markup :: "builtins \<Rightarrow> string \<Rightarrow> string \<Rightarrow> real \<Rightarrow> real \<Rightarrow> string" where
  \<open>path_markup B d strokeColor sw op =
     ''<path d="'' @ d @ ''"''
     @ '' fill="none"''
     @ '' stroke="'' @ strokeColor @ ''"''
     @ '' stroke-width="'' @ num_str B sw @ ''"''
     @ '' stroke-opacity="'' @ num_str B op @ ''"''
     @ '' stroke-linejoin="round"''
     @ '' stroke-linecap="round"/>''\<close>

text \<open>
  \<^verbatim>\<open>contourData.forEach(function(c, idx) ...)\<close>, lines 211 to 223: \<open>len\<close> is
  \<^verbatim>\<open>contourData.length\<close>, the list is what is left of \<^verbatim>\<open>contourData\<close> from index \<open>idx\<close> on.
\<close>

fun render_contours ::
  "builtins \<Rightarrow> resolved \<Rightarrow> real \<Rightarrow> real \<Rightarrow> real \<Rightarrow> real \<Rightarrow> nat \<Rightarrow> contour list \<Rightarrow> nat \<Rightarrow> string
     \<Rightarrow> string" where
  "render_contours B c sx sy ox oy len [] idx svg = svg"
| "render_contours B c sx sy ox oy len (ct # cts) idx svg =
     (let t = real idx / js_or (real len - 1) 1;
          d = contourToPath B ct sx sy ox oy;
          sw = cfg_strokeMin c + (cfg_strokeMax c - cfg_strokeMin c) * t;
          op = cfg_opacityMin c + (cfg_opacityMax c - cfg_opacityMin c) * (1 - t)
      in render_contours B c sx sy ox oy len cts (Suc idx)
           (svg @ path_markup B d (cfg_strokeColor c) sw op))"

text \<open>Lines 163 to 226: what follows the check of \<^verbatim>\<open>d3\<close>.\<close>

definition compose :: "builtins \<Rightarrow> resolved \<Rightarrow> extractor \<Rightarrow> string outcome" where
  "compose B c extract =
     (let bleed = 0.10;
          fullW = cfg_width c * (1 + bleed * 2);
          fullH = cfg_height c * (1 + bleed * 2);
          ox = cfg_width c * bleed;
          oy = cfg_height c * bleed
      in if cfg_gridWidth c = 1 \<or> cfg_gridHeight c = 1 then NonFinite
         else
           (let sx = fullW / (real (cfg_gridWidth c) - 1);
                sy = fullH / (real (cfg_gridHeight c) - 1);
                field = run_field c
            in case run_levels c of
                 None \<Rightarrow> NonFinite
               | Some levels \<Rightarrow>
                   (let contourData = extract (cfg_gridWidth c, cfg_gridHeight c) True levels field;
                        svg = svg_open B c;
                        svg = render_contours B c sx sy ox oy (length contourData) contourData 0 svg
                    in Returns (svg @ ''</g></svg>''))))"

text \<open>
  \<^verbatim>\<open>generateWavelineSvg(options)\<close>; a missing argument is \<open>None\<close>. The result comes with the
  world as the call leaves it.
\<close>

definition generateWavelineSvg ::
  "builtins \<Rightarrow> options option \<Rightarrow> world \<Rightarrow> string outcome \<times> world" where
  "generateWavelineSvg B options w =
     (let options = (case options of None \<Rightarrow> no_options | Some given \<Rightarrow> given);
          (c, w') = resolve_options options w
      in case d3_contours w' of
           None \<Rightarrow> (Throws ''d3-contour is required. Load it before waveline-bg.js.'', w')
         | Some extract \<Rightarrow> (compose B c extract, w'))"

section \<open>Properties of the PRNG\<close>

lemma ulp_exp_small: "n < 2 ^ 53 \<Longrightarrow> ulp_exp n = 0"
  by (simp add: ulp_exp.simps)

lemma ulp_exp_large: "2 ^ 53 \<le> n \<Longrightarrow> ulp_exp n = Suc (ulp_exp (n div 2))"
  by (subst ulp_exp.simps) simp

lemma round_double_exact: "n \<le> 2 ^ 53 \<Longrightarrow> round_double n = n"
proof (cases "n < 2 ^ 53")
  case True
  then show ?thesis by (simp add: round_double_def ulp_exp_small)
next
  case False
  assume "n \<le> 2 ^ 53"
  with False have n: "n = 2 ^ 53" by simp
  show ?thesis
    unfolding n by (simp add: round_double_def ulp_exp_small ulp_exp_large Let_def)
qed

lemma mulberry32_next_state:
  "rng_seed (snd (mulberry32_next g)) = num_add (rng_seed g) 0x6D2B79F5"
  by (simp add: mulberry32_next_def Let_def)

lemma u32_real_bounds: "0 \<le> real (unat (w :: u32)) \<and> real (unat w) < 4294967296"
proof -
  have "unat w < 4294967296"
    using unsigned_less [of w, where ?'a = nat] by simp
  then have "real (unat w) < real 4294967296"
    by (simp only: of_nat_less_iff)
  then show ?thesis
    by (simp del: of_nat_unat)
qed

lemma mulberry32_next_range:
  "0 \<le> fst (mulberry32_next g) \<and> fst (mulberry32_next g) < 1"
proof -
  obtain w :: u32 where "fst (mulberry32_next g) = real (unat w) / 4294967296"
    by (simp add: mulberry32_next_def Let_def del: of_nat_unat)
  with u32_real_bounds [of w] show ?thesis
    by (simp del: of_nat_unat)
qed

lemma mulberry32_next_value:
  "fst (mulberry32_next g) =
     real (unat (Mulberry32_mix (word_of_nat (num_add (rng_seed g) 0x6D2B79F5)))) / 2 ^ 32"
  by (simp add: mulberry32_next_def Mulberry32_mix_def imul_def Let_def)

lemma nth_draw_range: "0 \<le> nth_draw g n \<and> nth_draw g n < 1"
  by (induction n arbitrary: g) (simp_all add: mulberry32_next_range)

lemma nth_draw_exact:
  "rng_seed g + n * 0x6D2B79F5 \<le> 2 ^ 53 \<Longrightarrow>
   nth_draw g n = fst (mulberry32_next (g\<lparr>rng_seed := rng_seed g + n * 0x6D2B79F5\<rparr>))"
proof (induction n arbitrary: g)
  case 0
  then show ?case by simp
next
  case (Suc n)
  let ?g = "snd (mulberry32_next g)"
  from Suc.prems have le: "rng_seed g + 0x6D2B79F5 \<le> 2 ^ 53" by simp
  have st: "rng_seed ?g = rng_seed g + 0x6D2B79F5"
    by (simp add: mulberry32_next_state num_add_def round_double_exact [OF le])
  have upd: "?g = g\<lparr>rng_seed := rng_seed g + 0x6D2B79F5\<rparr>"
    using le by (simp add: mulberry32_next_def Let_def num_add_def round_double_exact)
  from Suc.prems st have "rng_seed ?g + n * 0x6D2B79F5 \<le> 2 ^ 53" by simp
  from Suc.IH [OF this] show ?case
    by (simp add: st upd add.assoc)
qed

lemma Mulberry32_nth_closed:
  "Mulberry32_nth a n = real (unat (Mulberry32_mix (a + of_nat (Suc n) * 0x6D2B79F5))) / 2 ^ 32"
proof (induction n arbitrary: a)
  case 0
  show ?case by simp
next
  case (Suc n)
  have "a + of_nat (Suc (Suc n)) * 0x6D2B79F5 = (a + 0x6D2B79F5) + of_nat (Suc n) * (0x6D2B79F5 :: u32)"
    by (simp add: algebra_simps)
  then show ?case
    by (simp only: Mulberry32_nth.simps Suc.IH)
qed

text \<open>
  While the accumulator stays within the integers that a double holds exactly, that is
  while \<open>seed + (n + 1) * 0x6D2B79F5 \<le> 2 ^ 53\<close>, draw \<open>n\<close> (counted from 0) of the closure
  made by \<^verbatim>\<open>mulberry32(seed)\<close> is draw \<open>n\<close> of Mulberry32 with a wrapping 32-bit accumulator.
\<close>

lemma mulberry32_is_Mulberry32_while_exact:
  assumes "seed + Suc n * 0x6D2B79F5 \<le> 2 ^ 53"
  shows "nth_draw (mulberry32 seed) n = Mulberry32_nth (word_of_nat seed) n"
proof -
  let ?g = "mulberry32 seed"
  from assms have le: "rng_seed ?g + n * 0x6D2B79F5 \<le> 2 ^ 53"
    by (simp add: mulberry32_def)
  from assms have "seed + n * 0x6D2B79F5 + 0x6D2B79F5 \<le> 2 ^ 53"
    by simp
  then have st: "num_add (seed + n * 0x6D2B79F5) 0x6D2B79F5 = seed + Suc n * 0x6D2B79F5"
    unfolding num_add_def by (subst round_double_exact) simp_all
  have w: "(word_of_nat (seed + Suc n * 0x6D2B79F5) :: u32) =
             word_of_nat seed + of_nat (Suc n) * 0x6D2B79F5"
    by simp
  have "nth_draw ?g n = fst (mulberry32_next (?g\<lparr>rng_seed := rng_seed ?g + n * 0x6D2B79F5\<rparr>))"
    by (rule nth_draw_exact [OF le])
  also have "\<dots> = real (unat (Mulberry32_mix (word_of_nat (seed + Suc n * 0x6D2B79F5)))) / 2 ^ 32"
    by (simp only: mulberry32_next_value mulberry32_def rng.simps st)
  also have "\<dots> = Mulberry32_nth (word_of_nat seed) n"
    by (simp only: Mulberry32_nth_closed w)
  finally show ?thesis .
qed

text \<open>
  \<^verbatim>\<open>generateField\<close> makes a closure from a 32-bit seed and calls it three times: these
  draws are the first three of Mulberry32.
\<close>

lemma generateField_draws_are_Mulberry32:
  assumes "seed < 2 ^ 32" and "n < 3"
  shows "nth_draw (mulberry32 seed) n = Mulberry32_nth (word_of_nat seed) n"
proof -
  from assms(2) have "Suc n * 0x6D2B79F5 \<le> 3 * 0x6D2B79F5"
    by (intro mult_right_mono) simp_all
  with assms(1) have "seed + Suc n * 0x6D2B79F5 \<le> 2 ^ 53"
    by simp
  then show ?thesis
    by (rule mulberry32_is_Mulberry32_while_exact)
qed

text \<open>The third draw from seed 12345, which is the third phase of the demo page's field.\<close>

lemma mulberry32_third_draw:
  "nth_draw (mulberry32 12345) 2 = 2079646450 / 4294967296"
  using generateField_draws_are_Mulberry32 [of 12345 2]
  by (simp add: Mulberry32_nth_closed Mulberry32_mix_def Let_def)


section \<open>Properties of the thresholds\<close>

lemma levels_loop_map:
  "levels_loop mn mx density bias k levels =
     levels @ map (\<lambda>k. mn + applyBias (real k / (real density + 1)) bias * (mx - mn)) [k..<Suc density]"
proof (induction mn mx density bias k levels rule: levels_loop.induct)
  case (1 mn mx density bias k levels)
  show ?case
  proof (cases "k \<le> density")
    case True
    then have "[k..<Suc density] = k # [Suc k..<Suc density]"
      by (simp add: upt_conv_Cons)
    with True "1.IH" [OF True refl] show ?thesis
      by (subst levels_loop.simps) (simp add: Let_def)
  next
    case False
    then show ?thesis
      by (subst levels_loop.simps) simp
  qed
qed

lemma Math_min_Min: "field \<noteq> [] \<Longrightarrow> Math_min field = Some (Min (set field))"
proof (cases field)
  case (Cons a list)
  then show ?thesis using Min.set_eq_fold [of a list] by simp
qed simp

lemma Math_max_Max: "field \<noteq> [] \<Longrightarrow> Math_max field = Some (Max (set field))"
proof (cases field)
  case (Cons a list)
  then show ?thesis using Max.set_eq_fold [of a list] by simp
qed simp

lemma compute_levels_map:
  "field \<noteq> [] \<Longrightarrow>
   compute_levels field density bias =
     Some (map (\<lambda>k. Min (set field) + applyBias (real k / (real density + 1)) bias
                      * (Max (set field) - Min (set field))) [1..<Suc density])"
  by (simp add: compute_levels_def Math_min_Min Math_max_Max levels_loop_map)



text \<open>
  Claim C5. For every field with minimum \<open>min\<close> and maximum \<open>max\<close>, every density of at
  least 1 and every bias, the planner produces exactly \<open>density\<close> thresholds, and the
  \<open>k\<close>-th of them (\<open>k\<close> from 1 to \<open>density\<close>) is \<open>min + B (k / (density + 1)) * (max - min)\<close>,
  where \<open>B\<close> is the identity when the bias is 0, \<open>u \<mapsto> u powr (1 + bias)\<close> when it is
  positive and \<open>u \<mapsto> 1 - (1 - u) powr (1 - bias)\<close> when it is negative.
\<close>

theorem thresholds_count_and_values:
  assumes "field \<noteq> []" and "1 \<le> density"
  shows "\<exists>levels. compute_levels field density bias = Some levels \<and>
           length levels = density \<and>
           (\<forall>k. 1 \<le> k \<and> k \<le> density \<longrightarrow>
              levels ! (k - 1) =
                (let u = real k / real (density + 1);
                     B = (if bias = 0 then u
                          else if 0 < bias then u powr (1 + bias)
                          else 1 - (1 - u) powr (1 - bias))
                 in Min (set field) + B * (Max (set field) - Min (set field))))"
proof -
  let ?mn = "Min (set field)" and ?mx = "Max (set field)"
  let ?f = "\<lambda>k. ?mn + applyBias (real k / (real density + 1)) bias * (?mx - ?mn)"
  let ?levels = "map ?f [1..<Suc density]"
  have eq: "compute_levels field density bias = Some ?levels"
    by (rule compute_levels_map [OF assms(1)])
  have len: "length ?levels = density" by simp
  have nth: "?levels ! (k - 1) = ?f k" if "1 \<le> k" "k \<le> density" for k
  proof -
    from that have "k - 1 < length [1..<Suc density]" by (simp del: upt_Suc)
    then have "?levels ! (k - 1) = ?f ([1..<Suc density] ! (k - 1))"
      by (rule nth_map)
    also from that have "[1..<Suc density] ! (k - 1) = k"
      by (simp add: nth_upt del: upt_Suc)
    finally show ?thesis .
  qed
  have "?f k = (let u = real k / real (density + 1);
                     B = (if bias = 0 then u
                          else if 0 < bias then u powr (1 + bias)
                          else 1 - (1 - u) powr (1 - bias))
                 in ?mn + B * (?mx - ?mn))" for k
    by (simp add: applyBias_def Let_def add.commute)
  with eq len nth show ?thesis
    by (intro exI [of _ ?levels]) simp
qed

text \<open>A field between 2 and 5, three thresholds, bias \<open>-1\<close>: \<open>B u = 1 - (1 - u)\<^sup>2\<close>.\<close>

theorem thresholds_count_and_values_witness:
  "[2, 5] \<noteq> ([] :: real list) \<and> (1 :: nat) \<le> 3 \<and>
   compute_levels [2, 5] 3 (- 1) = Some [2 + (7 / 16) * 3, 2 + (3 / 4) * 3, 2 + (15 / 16) * 3]"
  using thresholds_count_and_values [of "[2, 5]" 3 "- 1"]
  by (simp add: compute_levels_def levels_loop.simps applyBias_def Let_def power2_eq_square)

subsection \<open>Exact and rounded thresholds\<close>




text \<open>
  The double nearest to a number, from the binade \<open>[2 powi k, 2 powi (k + 1))\<close> that holds
  its magnitude.
\<close>

lemma floor_log2_eq:
  assumes "2 powi k \<le> x" and "x < 2 powi (k + 1)"
  shows "\<lfloor>log 2 x\<rfloor> = k"
proof -
  have pos: "0 < x"
    using assms(1) by (smt (verit) zero_less_power_int)
  have p: "(2::real) powr (of_int j) = 2 powi j" for j
    by (simp add: powr_real_of_int')
  have a: "(2::real) powr (of_int k) = 2 powi k"
    by (rule p)
  have b: "(2::real) powr (of_int k + 1) = 2 powi (k + 1)"
    using p [of "k + 1"] by simp
  from assms a b have "2 powr (of_int k) \<le> x" "x < 2 powr (of_int k + 1)"
    by simp_all
  with pos show ?thesis
    by (simp add: floor_log_eq_powr_iff)
qed

lemma binary64_round_binade:
  assumes "2 powi k \<le> \<bar>x\<bar>" and "\<bar>x\<bar> < 2 powi (k + 1)" and "- 1022 \<le> k"
  shows "binary64_round x = of_int (round_even (x / 2 powi (k - 52))) * 2 powi (k - 52)"
proof -
  have "0 < \<bar>x\<bar>"
    using assms(1) by (smt (verit) zero_less_power_int)
  then have "x \<noteq> 0" by simp
  moreover have "\<lfloor>log 2 \<bar>x\<bar>\<rfloor> = k"
    by (rule floor_log2_eq [OF assms(1,2)])
  ultimately show ?thesis
    using assms(3) by (simp add: binary64_round_def Let_def max_def)
qed




section \<open>Properties of the scalar field\<close>

lemma field_row_map:
  "field_row cell gridW j i values = values @ map (\<lambda>i. cell i j) [i..<gridW]"
proof (induction cell gridW j i "values" rule: field_row.induct)
  case (1 cell gridW j i "values")
  show ?case
  proof (cases "i < gridW")
    case True
    then have "[i..<gridW] = i # [Suc i..<gridW]"
      by (simp add: upt_conv_Cons)
    with True "1.IH" [OF True] show ?thesis
      by (subst field_row.simps) simp
  next
    case False
    then show ?thesis
      by (subst field_row.simps) simp
  qed
qed

lemma field_rows_map:
  "field_rows cell gridW gridH j values =
     values @ concat (map (\<lambda>j. map (\<lambda>i. cell i j) [0..<gridW]) [j..<gridH])"
proof (induction cell gridW gridH j "values" rule: field_rows.induct)
  case (1 cell gridW gridH j "values")
  show ?case
  proof (cases "j < gridH")
    case True
    then have "[j..<gridH] = j # [Suc j..<gridH]"
      by (simp add: upt_conv_Cons)
    with True "1.IH" [OF True] show ?thesis
      by (subst field_rows.simps) (simp add: field_row_map)
  next
    case False
    then show ?thesis
      by (subst field_rows.simps) simp
  qed
qed

lemma grid_length:
  "length (concat (map (\<lambda>j. map (\<lambda>i. cell i j) [0..<w]) [0..<h])) = h * w"
  by (induction h) simp_all

lemma grid_nth:
  "i < w \<Longrightarrow> j < h \<Longrightarrow>
   concat (map (\<lambda>j. map (\<lambda>i. cell i j) [0..<w]) [0..<h]) ! (j * w + i) = cell i (j :: nat)"
proof (induction h)
  case 0
  then show ?case by simp
next
  case (Suc h)
  let ?rows = "concat (map (\<lambda>j. map (\<lambda>i. cell i j) [0..<w]) [0..<h])"
  have len: "length ?rows = h * w" by (rule grid_length)
  show ?case
  proof (cases "j < h")
    case True
    with Suc.prems have "j * w + i < h * w"
      by (metis add.commute less_eq_Suc_le mult_Suc mult_le_mono1 nat_add_left_cancel_less
          order_less_le_trans)
    with True Suc show ?thesis
      by (simp add: nth_append len)
  next
    case False
    with Suc.prems have "j = h" by simp
    with Suc.prems show ?thesis
      by (simp add: nth_append len)
  qed
qed

lemma generateField_run_unfold:
  "generateField_run gridW gridH freq amplitude seed =
     (concat (map (\<lambda>j. map (\<lambda>i. field_cell gridW gridH (freq / 10) amplitude
                  (fst (mulberry32_next (mulberry32 (unat (ToUint32 seed)))) * pi * 2)
                  (fst (mulberry32_next (snd (mulberry32_next (mulberry32 (unat (ToUint32 seed)))))) * pi * 2)
                  (fst (mulberry32_next (snd (mulberry32_next (snd (mulberry32_next
                     (mulberry32 (unat (ToUint32 seed)))))))) * pi * 2) i j)
                [0..<gridW]) [0..<gridH]),
      snd (mulberry32_next (snd (mulberry32_next (snd (mulberry32_next
        (mulberry32 (unat (ToUint32 seed)))))))))"
  apply (simp only: generateField_run_def)
  apply (simp only: Let_def)
  apply (simp only: case_prod_beta)
  apply (simp only: field_rows_map)
  apply (simp only: append_Nil)
  done

lemma ToUint32_in_range: "0 \<le> seed \<Longrightarrow> seed < 2 ^ 32 \<Longrightarrow> unat (ToUint32 seed) = nat seed"
  by (simp add: ToUint32_def unat_eq_nat_uint uint_word_of_int)

lemma phase_range:
  "0 \<le> 2 * pi * nth_draw g n \<and> 2 * pi * nth_draw g n < 2 * pi"
  using nth_draw_range [of g n] by simp

lemma field_cell_formula:
  "field_cell gridW gridH f amplitude (r1 * pi * 2) (r2 * pi * 2) (r3 * pi * 2) i j =
     (let nx = real i / real gridW - 0.5;
          ny = real j / real gridH - 0.5
      in amplitude * (sin (2 * pi * f * nx + 2 * pi * r1)
                      + sin (2 * pi * (0.9 * f) * ny + 2 * pi * r2)
                      + 0.6 * sin (2 * pi * (0.7 * f) * (nx + ny) + 2 * pi * r3)
                      + 0.4 * sin (2 * pi * (0.5 * f) * (nx - ny) - 2 * pi * r2)))"
proof -
  have a1: "x * pi * 2 * f + r * pi * 2 = 2 * pi * f * x + 2 * pi * r" for x r :: real
    by simp
  have a2: "x * pi * 2 * f * 0.9 + r * pi * 2 = 2 * pi * (0.9 * f) * x + 2 * pi * r" for x r :: real
    by simp
  have a3: "x * pi * 2 * f * 0.7 + r * pi * 2 = 2 * pi * (0.7 * f) * x + 2 * pi * r" for x r :: real
    by simp
  have a4: "x * pi * 2 * f * 0.5 - r * pi * 2 = 2 * pi * (0.5 * f) * x - 2 * pi * r" for x r :: real
    by simp
  show ?thesis
    unfolding field_cell_def Let_def a1 a2 a3 a4
    by (rule mult.commute)
qed

text \<open>
  Claim C1. For every grid at least 2 wide and 2 high, every frequency and amplitude and
  every 32-bit seed, \<^verbatim>\<open>generateField\<close> draws exactly three values from the generator made
  from the seed, which give \<open>phase1\<close>, \<open>phase2\<close> and \<open>phase3\<close> in this order, each in
  \<open>[0, 2 * pi)\<close>; it returns \<open>gridWidth * gridHeight\<close> values in row-major order, the value
  of column \<open>i\<close> in row \<open>j\<close> being
  \<open>amplitude * (sin (2 pi f nx + phase1) + sin (2 pi 0.9 f ny + phase2)
     + 0.6 sin (2 pi 0.7 f (nx + ny) + phase3) + 0.4 sin (2 pi 0.5 f (nx - ny) - phase2))\<close>
  with \<open>f = freq / 10\<close>, \<open>nx = i / gridWidth - 0.5\<close> and \<open>ny = j / gridHeight - 0.5\<close>.
\<close>

theorem generateField_values:
  assumes "2 \<le> gridWidth" and "2 \<le> gridHeight" and "0 \<le> seed" and "seed < 2 ^ 32"
  shows
    "(let rnd = mulberry32 (nat seed);
          phase1 = 2 * pi * nth_draw rnd 0;
          phase2 = 2 * pi * nth_draw rnd 1;
          phase3 = 2 * pi * nth_draw rnd 2;
          f = freq / 10;
          field = generateField gridWidth gridHeight freq amplitude seed
      in (0 \<le> phase1 \<and> phase1 < 2 * pi) \<and> (0 \<le> phase2 \<and> phase2 < 2 * pi) \<and>
         (0 \<le> phase3 \<and> phase3 < 2 * pi) \<and>
         snd (generateField_run gridWidth gridHeight freq amplitude seed) =
           snd (mulberry32_next (snd (mulberry32_next (snd (mulberry32_next rnd))))) \<and>
         length field = gridWidth * gridHeight \<and>
         (\<forall>i j. i < gridWidth \<and> j < gridHeight \<longrightarrow>
            field ! (j * gridWidth + i) =
              (let nx = real i / real gridWidth - 0.5;
                   ny = real j / real gridHeight - 0.5
               in amplitude * (sin (2 * pi * f * nx + phase1)
                               + sin (2 * pi * (0.9 * f) * ny + phase2)
                               + 0.6 * sin (2 * pi * (0.7 * f) * (nx + ny) + phase3)
                               + 0.4 * sin (2 * pi * (0.5 * f) * (nx - ny) - phase2)))))"
proof -
  let ?g = "mulberry32 (nat seed)"
  let ?r1 = "nth_draw ?g 0" and ?r2 = "nth_draw ?g 1" and ?r3 = "nth_draw ?g 2"
  let ?cell = "field_cell gridWidth gridHeight (freq / 10) amplitude
                 (?r1 * pi * 2) (?r2 * pi * 2) (?r3 * pi * 2)"
  let ?field = "generateField gridWidth gridHeight freq amplitude seed"
  from assms(3,4) have u: "unat (ToUint32 seed) = nat seed"
    by (rule ToUint32_in_range)
  have n0: "fst (mulberry32_next ?g) = ?r1"
    by simp
  have n1: "fst (mulberry32_next (snd (mulberry32_next ?g))) = ?r2"
    by (simp add: numeral_eq_Suc)
  have n2: "fst (mulberry32_next (snd (mulberry32_next (snd (mulberry32_next ?g))))) = ?r3"
    by (simp add: numeral_eq_Suc)
  have run: "generateField_run gridWidth gridHeight freq amplitude seed =
      (concat (map (\<lambda>j. map (\<lambda>i. ?cell i j) [0..<gridWidth]) [0..<gridHeight]),
       snd (mulberry32_next (snd (mulberry32_next (snd (mulberry32_next ?g))))))"
    by (simp only: generateField_run_unfold u n0 n1 n2)
  then have field: "?field = concat (map (\<lambda>j. map (\<lambda>i. ?cell i j) [0..<gridWidth]) [0..<gridHeight])"
    by (simp only: generateField_def fst_conv)
  from run have state: "snd (generateField_run gridWidth gridHeight freq amplitude seed) =
      snd (mulberry32_next (snd (mulberry32_next (snd (mulberry32_next ?g)))))"
    by (simp only: snd_conv)
  have len: "length ?field = gridWidth * gridHeight"
    unfolding field by (simp only: grid_length mult.commute)
  have nth: "?field ! (j * gridWidth + i) =
      (let nx = real i / real gridWidth - 0.5;
           ny = real j / real gridHeight - 0.5
       in amplitude * (sin (2 * pi * (freq / 10) * nx + 2 * pi * ?r1)
                       + sin (2 * pi * (0.9 * (freq / 10)) * ny + 2 * pi * ?r2)
                       + 0.6 * sin (2 * pi * (0.7 * (freq / 10)) * (nx + ny) + 2 * pi * ?r3)
                       + 0.4 * sin (2 * pi * (0.5 * (freq / 10)) * (nx - ny) - 2 * pi * ?r2)))"
    if "i < gridWidth" "j < gridHeight" for i j
    unfolding field using that by (simp only: grid_nth field_cell_formula)
  note ranges = phase_range [of ?g 0] phase_range [of ?g 1] phase_range [of ?g 2]
  show ?thesis
    unfolding Let_def
    using ranges state len nth unfolding Let_def by blast
qed

text \<open>A grid of 3 by 2 cells from seed 12345, and its last cell (column 2 of row 1).\<close>

theorem generateField_values_witness:
  "(2 :: nat) \<le> 3 \<and> (2 :: nat) \<le> 2 \<and> (0 :: int) \<le> 12345 \<and> (12345 :: int) < 2 ^ 32 \<and>
   length (generateField 3 2 5 1 12345) = 6 \<and>
   rng_seed (snd (generateField_run 3 2 5 1 12345)) = 12345 + 3 * 0x6D2B79F5 \<and>
   (2 :: nat) < 3 \<and> (1 :: nat) < 2 \<and>
   generateField 3 2 5 1 12345 ! (1 * 3 + 2) =
     1 * (sin (2 * pi * (5 / 10) * (2 / 3 - 0.5) + 2 * pi * nth_draw (mulberry32 12345) 0)
          + sin (2 * pi * (0.9 * (5 / 10)) * (1 / 2 - 0.5) + 2 * pi * nth_draw (mulberry32 12345) 1)
          + 0.6 * sin (2 * pi * (0.7 * (5 / 10)) * ((2 / 3 - 0.5) + (1 / 2 - 0.5))
                       + 2 * pi * nth_draw (mulberry32 12345) 2)
          + 0.4 * sin (2 * pi * (0.5 * (5 / 10)) * ((2 / 3 - 0.5) - (1 / 2 - 0.5))
                       - 2 * pi * nth_draw (mulberry32 12345) 1))"
proof -
  note t = generateField_values [of 3 2 12345 5 1, unfolded Let_def, simplified]
  from t have cell: "generateField 3 2 5 1 12345 ! (1 * 3 + 2) =
     1 * (sin (2 * pi * (5 / 10) * (2 / 3 - 0.5) + 2 * pi * nth_draw (mulberry32 12345) 0)
          + sin (2 * pi * (0.9 * (5 / 10)) * (1 / 2 - 0.5) + 2 * pi * nth_draw (mulberry32 12345) 1)
          + 0.6 * sin (2 * pi * (0.7 * (5 / 10)) * ((2 / 3 - 0.5) + (1 / 2 - 0.5))
                       + 2 * pi * nth_draw (mulberry32 12345) 2)
          + 0.4 * sin (2 * pi * (0.5 * (5 / 10)) * ((2 / 3 - 0.5) - (1 / 2 - 0.5))
                       - 2 * pi * nth_draw (mulberry32 12345) 1))"
    by (elim conjE) (drule spec [of _ 2], drule spec [of _ 1], simp)
  from t have "length (generateField 3 2 5 1 12345) = 6"
    by simp
  moreover from t have "rng_seed (snd (generateField_run 3 2 5 1 12345)) = 12345 + 3 * 0x6D2B79F5"
    by (simp add: mulberry32_def mulberry32_next_state num_add_def round_double_exact)
  ultimately show ?thesis using cell by simp
qed

section \<open>Properties of the built-ins\<close>

lemma nat_str_step: "10 \<le> n \<Longrightarrow> nat_str n = nat_str (n div 10) @ [digit_char (n mod 10)]"
  by (subst nat_str.simps) simp

lemma digit_char_is_digit: "d < 10 \<Longrightarrow> is_digit (digit_char d)"
  unfolding is_digit_def digit_char_def by (rule nth_mem) simp

lemma nat_str_digits: "list_all is_digit (nat_str n) \<and> nat_str n \<noteq> []"
proof (induction n rule: nat_str.induct)
  case (1 n)
  show ?case
  proof (cases "n < 10")
    case True
    then show ?thesis
      by (subst (1 2) nat_str.simps) (simp add: digit_char_is_digit)
  next
    case False
    with "1.IH" show ?thesis
      by (subst (1 2) nat_str.simps) (simp add: digit_char_is_digit)
  qed
qed

lemma point_no_digit: "\<not> is_digit CHR ''.''" "\<not> is_digit CHR ''-''" "is_digit CHR ''0''"
  by (simp_all add: is_digit_def)

lemma three_fraction_digitsI:
  assumes "sign = [] \<or> sign = ''-''" and "whole \<noteq> []" and "list_all is_digit whole"
    and "length fr = 3" and "list_all is_digit fr"
  shows "three_fraction_digits (sign @ whole @ ''.'' @ fr)"
proof -
  from assms(2) obtain c cs where whole: "whole = c # cs"
    by (cases whole) auto
  with assms(3) have c: "is_digit c" by simp
  then have "c \<noteq> CHR ''-''" using point_no_digit(2) by auto
  with assms(1) whole have u:
    "(case sign @ whole @ ''.'' @ fr of c # cs \<Rightarrow> if c = CHR ''-'' then cs else sign @ whole @ ''.'' @ fr
       | [] \<Rightarrow> sign @ whole @ ''.'' @ fr) = whole @ CHR ''.'' # fr"
    by auto
  from assms(3) have tw: "takeWhile is_digit (whole @ CHR ''.'' # fr) = whole"
    by (simp add: takeWhile_append2 list_all_iff point_no_digit)
  from assms(3) have dw: "dropWhile is_digit (whole @ CHR ''.'' # fr) = CHR ''.'' # fr"
    by (simp add: dropWhile_append2 list_all_iff point_no_digit)
  show ?thesis
    unfolding three_fraction_digits_def u Let_def tw dw
    using assms(2,4,5) by simp
qed

lemma toFixed_three_fraction_digits:
  assumes "\<bar>x\<bar> < 10 ^ 21"
  shows "three_fraction_digits (toFixed B x 3)"
proof -
  define s :: string where "s = (if x < 0 then ''-'' else [])"
  define m where "m = nat_str (nat \<lfloor>\<bar>x\<bar> * 10 ^ 3 + 1 / 2\<rfloor>)"
  define m' where "m' = replicate (Suc 3 - length m) CHR ''0'' @ m"
  have digits: "list_all is_digit m'"
    using nat_str_digits [of "nat \<lfloor>\<bar>x\<bar> * 10 ^ 3 + 1 / 2\<rfloor>"]
    by (auto simp: m'_def m_def list_all_iff point_no_digit)
  have len: "4 \<le> length m'"
    by (simp add: m'_def)
  from assms have "toFixed B x 3 = s @ take (length m' - 3) m' @ ''.'' @ drop (length m' - 3) m'"
    by (simp add: toFixed_def Let_def s_def m'_def m_def)
  moreover have "three_fraction_digits (s @ take (length m' - 3) m' @ ''.'' @ drop (length m' - 3) m')"
  proof (rule three_fraction_digitsI)
    show "s = [] \<or> s = ''-''" by (simp add: s_def)
    from len show "take (length m' - 3) m' \<noteq> []" by auto
    from digits show "list_all is_digit (take (length m' - 3) m')"
      by (auto simp: list_all_iff dest: in_set_takeD)
    from len show "length (drop (length m' - 3) m') = 3" by simp
    from digits show "list_all is_digit (drop (length m' - 3) m')"
      by (auto simp: list_all_iff dest: in_set_dropD)
  qed
  ultimately show ?thesis by simp
qed

lemma replicate_small:
  "replicate 1 x = [x]" "replicate 2 x = [x, x]" "replicate 3 x = [x, x, x]"
  by (simp_all add: numeral_2_eq_2 numeral_3_eq_3)

lemma nat_str_digit: "n < 10 \<Longrightarrow> nat_str n = [digit_char n]"
  by (simp add: nat_str.simps)

section \<open>Properties of the path\<close>

lemma path_points_lines:
  "path_points B sx sy ox oy pts (Suc idx) d =
     d @ concat (map (\<lambda>q. op_text B (case map_point sx sy ox oy q of (x, y) \<Rightarrow> Line x y)) pts)"
  by (induction pts arbitrary: idx d) (simp_all add: map_point_def Let_def)

lemma path_points_ring:
  "path_points B sx sy ox oy ring 0 d @ ''Z '' =
     d @ concat (map (op_text B) (ring_ops sx sy ox oy ring))"
  by (cases ring) (simp_all add: path_points_lines map_point_def Let_def comp_def)

lemma path_rings_ops:
  "path_rings B sx sy ox oy rings d =
     d @ concat (map (op_text B) (concat (map (ring_ops sx sy ox oy) rings)))"
  by (induction rings arbitrary: d) (simp_all add: path_points_ring)

lemma path_polys_ops:
  "path_polys B sx sy ox oy polys d =
     d @ concat (map (op_text B) (concat (map (ring_ops sx sy ox oy) (concat polys))))"
  by (induction polys arbitrary: d) (simp_all add: path_rings_ops)

lemma ring_ops_last: "\<exists>ops. ring_ops sx sy ox oy ring = ops @ [Close]"
  by (cases ring) simp_all

lemma rings_ops_last:
  "rings \<noteq> [] \<Longrightarrow> \<exists>ops. concat (map (ring_ops sx sy ox oy) rings) = ops @ [Close]"
proof (induction rings rule: rev_induct)
  case Nil
  then show ?case by simp
next
  case (snoc r rs)
  obtain ops where "ring_ops sx sy ox oy r = ops @ [Close]"
    using ring_ops_last by blast
  then have "concat (map (ring_ops sx sy ox oy) (rs @ [r])) =
      (concat (map (ring_ops sx sy ox oy) rs) @ ops) @ [Close]"
    by simp
  then show ?case by blast
qed

lemma ring_ops_text_first:
  "\<exists>c rest. concat (map (op_text B) (ring_ops sx sy ox oy ring)) = c # rest \<and> \<not> is_space c"
  by (cases ring) (simp_all add: is_space_def split: prod.splits)

lemma rings_ops_text_first:
  "rings \<noteq> [] \<Longrightarrow>
   \<exists>c rest. concat (map (op_text B) (concat (map (ring_ops sx sy ox oy) rings))) = c # rest
     \<and> \<not> is_space c"
proof (cases rings)
  case Nil
  assume "rings \<noteq> []"
  with Nil show ?thesis by simp
next
  case (Cons r rs)
  obtain c rest where "concat (map (op_text B) (ring_ops sx sy ox oy r)) = c # rest" "\<not> is_space c"
    using ring_ops_text_first by blast
  with Cons show ?thesis by simp
qed

lemma trim_closed_path:
  assumes "s = c # rest" and "\<not> is_space c" and "s = body @ ''Z ''"
  shows "trim s = body @ ''Z''"
proof -
  from assms(1,2) have "dropWhile is_space s = s" by simp
  moreover have "dropWhile is_space (rev (body @ ''Z '')) = CHR ''Z'' # rev body"
    by (simp add: is_space_def)
  ultimately show ?thesis
    by (simp add: trim_def assms(3))
qed

lemma trim_ops_text:
  "trim (concat (map (op_text B) (concat (map (ring_ops sx sy ox oy) rings)))) =
     butlast (concat (map (op_text B) (concat (map (ring_ops sx sy ox oy) rings))))"
proof (cases "rings = []")
  case True
  then show ?thesis by (simp add: trim_def)
next
  case False
  let ?s = "concat (map (op_text B) (concat (map (ring_ops sx sy ox oy) rings)))"
  from False obtain ops where "concat (map (ring_ops sx sy ox oy) rings) = ops @ [Close]"
    using rings_ops_last by blast
  then have s: "?s = concat (map (op_text B) ops) @ ''Z ''"
    by simp
  from False obtain c rest where "?s = c # rest" "\<not> is_space c"
    using rings_ops_text_first by blast
  then have "trim ?s = concat (map (op_text B) ops) @ ''Z''"
    using s by (rule trim_closed_path)
  also have "\<dots> = butlast ?s"
    unfolding s by (simp add: butlast_append)
  finally show ?thesis .
qed

lemma close_count:
  "length (filter (\<lambda>x. x = Close) (concat (map (ring_ops sx sy ox oy) rings))) = length rings"
proof (induction rings)
  case Nil
  then show ?case by simp
next
  case (Cons r rs)
  have "length (filter (\<lambda>x. x = Close) (ring_ops sx sy ox oy r)) = 1"
    by (cases r) (simp_all add: filter_map comp_def split: prod.splits)
  with Cons show ?case by simp
qed

text \<open>
  Claim C8, as amended. For every contour and every scale and offset, the path that
  \<^verbatim>\<open>contourToPath\<close> returns is the text of the operations of the contour (without the blank
  that ends it): every ring gives a move to its first point, a line to each later point
  and exactly one close, every point \<open>(x, y)\<close> being mapped to
  \<open>(x * scaleX - offsetX, y * scaleY - offsetY)\<close> and each coordinate written by
  \<^verbatim>\<open>toFixed(3)\<close>, which gives exactly 3 fractional digits when the magnitude of the
  coordinate is below \<open>10 ^ 21\<close>.
\<close>

theorem contourToPath_operations:
  "contourToPath B c sx sy ox oy =
     butlast (concat (map (\<lambda>operation. case operation of
                             Move x y \<Rightarrow> ''M '' @ toFixed B x 3 @ '' '' @ toFixed B y 3 @ '' ''
                           | Line x y \<Rightarrow> ''L '' @ toFixed B x 3 @ '' '' @ toFixed B y 3 @ '' ''
                           | Close \<Rightarrow> ''Z '')
                     (contour_ops sx sy ox oy c)))
   \<and> contour_ops sx sy ox oy c =
       concat (map (\<lambda>ring. (case ring of
                              [] \<Rightarrow> []
                            | p # ps \<Rightarrow> Move (fst p * sx - ox) (snd p * sy - oy)
                                # map (\<lambda>q. Line (fst q * sx - ox) (snd q * sy - oy)) ps)
                            @ [Close])
                 (concat (coordinates c)))
   \<and> length (filter (\<lambda>x. x = Close) (contour_ops sx sy ox oy c)) = length (concat (coordinates c))
   \<and> (\<forall>v. \<bar>v\<bar> < 10 ^ 21 \<longrightarrow> three_fraction_digits (toFixed B v 3))"
proof -
  have shown: "op_text B =
      (\<lambda>operation. case operation of
         Move x y \<Rightarrow> ''M '' @ toFixed B x 3 @ '' '' @ toFixed B y 3 @ '' ''
       | Line x y \<Rightarrow> ''L '' @ toFixed B x 3 @ '' '' @ toFixed B y 3 @ '' ''
       | Close \<Rightarrow> ''Z '')"
  proof
    fix operation
    show "op_text B operation =
      (case operation of
         Move x y \<Rightarrow> ''M '' @ toFixed B x 3 @ '' '' @ toFixed B y 3 @ '' ''
       | Line x y \<Rightarrow> ''L '' @ toFixed B x 3 @ '' '' @ toFixed B y 3 @ '' ''
       | Close \<Rightarrow> ''Z '')"
      by (cases operation) simp_all
  qed
  have "contourToPath B c sx sy ox oy =
      butlast (concat (map (op_text B) (contour_ops sx sy ox oy c)))"
    by (simp add: contourToPath_def path_polys_ops trim_ops_text contour_ops_def)
  then have "contourToPath B c sx sy ox oy =
     butlast (concat (map (\<lambda>operation. case operation of
                             Move x y \<Rightarrow> ''M '' @ toFixed B x 3 @ '' '' @ toFixed B y 3 @ '' ''
                           | Line x y \<Rightarrow> ''L '' @ toFixed B x 3 @ '' '' @ toFixed B y 3 @ '' ''
                           | Close \<Rightarrow> ''Z '')
                     (contour_ops sx sy ox oy c)))"
    by (simp only: shown)
  moreover have "ring_ops sx sy ox oy =
      (\<lambda>ring. (case ring of [] \<Rightarrow> []
       | p # ps \<Rightarrow> Move (fst p * sx - ox) (snd p * sy - oy)
           # map (\<lambda>q. Line (fst q * sx - ox) (snd q * sy - oy)) ps) @ [Close])"
  proof
    fix ring
    show "ring_ops sx sy ox oy ring =
      (case ring of [] \<Rightarrow> []
       | p # ps \<Rightarrow> Move (fst p * sx - ox) (snd p * sy - oy)
           # map (\<lambda>q. Line (fst q * sx - ox) (snd q * sy - oy)) ps) @ [Close]"
      by (cases ring) (simp_all add: map_point_def)
  qed
  then have "contour_ops sx sy ox oy c =
       concat (map (\<lambda>ring. (case ring of
                              [] \<Rightarrow> []
                            | p # ps \<Rightarrow> Move (fst p * sx - ox) (snd p * sy - oy)
                                # map (\<lambda>q. Line (fst q * sx - ox) (snd q * sy - oy)) ps)
                            @ [Close])
                 (concat (coordinates c)))"
    by (simp only: contour_ops_def)
  moreover have "length (filter (\<lambda>x. x = Close) (contour_ops sx sy ox oy c)) =
      length (concat (coordinates c))"
    by (simp add: contour_ops_def close_count)
  moreover have "\<forall>v. \<bar>v\<bar> < 10 ^ 21 \<longrightarrow> three_fraction_digits (toFixed B v 3)"
    by (simp add: toFixed_three_fraction_digits)
  ultimately show ?thesis by blast
qed

text \<open>
  One polygon of two rings, a triangle and an empty ring, scaled by \<open>5 / 2\<close> and 3 and
  moved left by \<open>1 / 4\<close>.
\<close>

theorem contourToPath_operations_witness:
  "contourToPath \<lparr>num_str = (\<lambda>x. [])\<rparr> \<lparr>coordinates = [[[(0, 0), (1, 0), (1, 1)], []]]\<rparr>
     (5 / 2) 3 (1 / 4) 0
   = ''M -0.250 0.000 L 2.250 0.000 L 2.250 3.000 Z Z'' \<and>
   \<bar>- (1 / 4) :: real\<bar> < 10 ^ 21 \<and>
   three_fraction_digits (toFixed \<lparr>num_str = (\<lambda>x. [])\<rparr> (- (1 / 4)) 3)"
proof -
  have "contourToPath \<lparr>num_str = (\<lambda>x. [])\<rparr> \<lparr>coordinates = [[[(0, 0), (1, 0), (1, 1)], []]]\<rparr>
     (5 / 2) 3 (1 / 4) 0
   = ''M -0.250 0.000 L 2.250 0.000 L 2.250 3.000 Z Z''"
    by (simp add: contourToPath_def trim_def is_space_def toFixed_def Let_def nat_str_step
        nat_str_digit digit_char_def replicate_small)
  moreover have "\<bar>- (1 / 4) :: real\<bar> < 10 ^ 21"
    by simp
  moreover from this have "three_fraction_digits (toFixed \<lparr>num_str = (\<lambda>x. [])\<rparr> (- (1 / 4)) 3)"
    using contourToPath_operations
      [of "\<lparr>num_str = (\<lambda>x. [])\<rparr>" "\<lparr>coordinates = [[[(0, 0), (1, 0), (1, 1)], []]]\<rparr>"
          "5 / 2" 3 "1 / 4" 0]
    by blast
  ultimately show ?thesis
    by (intro conjI)
qed

text \<open>
  Claim C8 as it is written fails: a coordinate of \<open>10 ^ 21\<close> is written by \<^verbatim>\<open>toFixed(3)\<close> as
  the text of the Number, which JavaScript gives in exponent notation, \<^verbatim>\<open>1e+21\<close>, with no
  fractional digit.
\<close>

theorem contourToPath_exponent_notation:
  "contourToPath \<lparr>num_str = (\<lambda>x. ''1e+21'')\<rparr> \<lparr>coordinates = [[[(1, 0)]]]\<rparr> (10 ^ 21) 1 0 0
   = ''M 1e+21 0.000 Z'' \<and>
   \<not> three_fraction_digits ''1e+21''"
  by (simp add: contourToPath_def trim_def is_space_def toFixed_def Let_def nat_str_step nat_str_digit
      digit_char_def replicate_small three_fraction_digits_def is_digit_def)

section \<open>Properties of the document\<close>

lemma render_contours_map:
  "render_contours B c sx sy ox oy len cts idx svg =
     svg @ concat (map (\<lambda>k. path_markup B (contourToPath B (cts ! k) sx sy ox oy) (cfg_strokeColor c)
                          (cfg_strokeMin c + (cfg_strokeMax c - cfg_strokeMin c)
                             * (real (idx + k) / js_or (real len - 1) 1))
                          (cfg_opacityMin c + (cfg_opacityMax c - cfg_opacityMin c)
                             * (1 - real (idx + k) / js_or (real len - 1) 1)))
                    [0..<length cts])"
proof (induction cts arbitrary: idx svg)
  case Nil
  show ?case by simp
next
  case (Cons ct cts)
  have upt: "[0..<length (ct # cts)] = 0 # map Suc [0..<length cts]"
    by (simp only: length_Cons upt_conv_Cons [of 0] zero_less_Suc map_Suc_upt)
  show ?case
    unfolding upt
    by (simp only: render_contours.simps Let_def Cons.IH list.map concat.simps map_map comp_def
        nth_Cons_0 nth_Cons_Suc add_Suc_right add_Suc add_0_right append_assoc)
qed

lemma js_or_length:
  "1 \<le> n \<Longrightarrow> js_or (real n - 1) 1 = (if n = 1 then 1 else real n - 1)"
  by (auto simp: js_or_def)

text \<open>
  Claim C7. For every list of \<open>n\<close> contours, \<open>n\<close> at least 1, that the composer renders,
  the contour at index \<open>idx\<close> is styled with the position \<open>t = idx / (n - 1)\<close> (\<open>t = 0\<close> when
  \<open>n = 1\<close>): the \<^verbatim>\<open>path\<close> element written for it carries, as \<^verbatim>\<open>stroke-width\<close>, the text of
  \<open>strokeMin + (strokeMax - strokeMin) * t\<close> and, as \<^verbatim>\<open>stroke-opacity\<close>, the text of
  \<open>opacityMax - (opacityMax - opacityMin) * t\<close>. The opacity is \<open>opacityMax\<close> at \<open>t = 0\<close> and
  goes linearly to \<open>opacityMin\<close> at \<open>t = 1\<close>, the direction opposite to the width.
\<close>

theorem contour_styles:
  assumes "1 \<le> length contourData"
  shows
    \<open>(let n = length contourData;
          t = (\<lambda>idx. if n = 1 then 0 else real idx / (real n - 1));
          sw = (\<lambda>idx. cfg_strokeMin c + (cfg_strokeMax c - cfg_strokeMin c) * t idx);
          op = (\<lambda>idx. cfg_opacityMax c - (cfg_opacityMax c - cfg_opacityMin c) * t idx)
      in render_contours B c sx sy ox oy n contourData 0 svg =
           svg @ concat (map (\<lambda>idx.
                   ''<path d="'' @ contourToPath B (contourData ! idx) sx sy ox oy
                   @ ''" fill="none" stroke="'' @ cfg_strokeColor c
                   @ ''" stroke-width="'' @ num_str B (sw idx)
                   @ ''" stroke-opacity="'' @ num_str B (op idx)
                   @ ''" stroke-linejoin="round" stroke-linecap="round"/>'') [0..<n])
         \<and> sw 0 = cfg_strokeMin c \<and> op 0 = cfg_opacityMax c
         \<and> (1 < n \<longrightarrow> sw (n - 1) = cfg_strokeMax c \<and> op (n - 1) = cfg_opacityMin c))\<close>
proof -
  let ?n = "length contourData"
  let ?t = "\<lambda>idx. if ?n = 1 then 0 else real idx / (real ?n - 1)"
  let ?sw = "\<lambda>idx. cfg_strokeMin c + (cfg_strokeMax c - cfg_strokeMin c) * ?t idx"
  let ?op = "\<lambda>idx. cfg_opacityMax c - (cfg_opacityMax c - cfg_opacityMin c) * ?t idx"
  let ?element = \<open>\<lambda>idx.
      ''<path d="'' @ contourToPath B (contourData ! idx) sx sy ox oy
      @ ''" fill="none" stroke="'' @ cfg_strokeColor c
      @ ''" stroke-width="'' @ num_str B (?sw idx)
      @ ''" stroke-opacity="'' @ num_str B (?op idx)
      @ ''" stroke-linejoin="round" stroke-linecap="round"/>''\<close>
  have t: "real (0 + k) / js_or (real ?n - 1) 1 = ?t k" if "k \<in> set [0..<?n]" for k
    using that assms by (auto simp: js_or_length)
  have op: "cfg_opacityMin c + (cfg_opacityMax c - cfg_opacityMin c) * (1 - x) =
      cfg_opacityMax c - (cfg_opacityMax c - cfg_opacityMin c) * x" for x
    by (simp add: algebra_simps)
  have element: "path_markup B d (cfg_strokeColor c) (?sw idx) (?op idx) =
      ''<path d=\"'' @ d
      @ ''\" fill=\"none\" stroke=\"'' @ cfg_strokeColor c
      @ ''\" stroke-width=\"'' @ num_str B (?sw idx)
      @ ''\" stroke-opacity=\"'' @ num_str B (?op idx)
      @ ''\" stroke-linejoin=\"round\" stroke-linecap=\"round\"/>''" for d idx
    unfolding path_markup_def by simp
  have "render_contours B c sx sy ox oy ?n contourData 0 svg =
      svg @ concat (map (\<lambda>idx. path_markup B (contourToPath B (contourData ! idx) sx sy ox oy)
                                  (cfg_strokeColor c) (?sw idx) (?op idx)) [0..<?n])"
    unfolding render_contours_map op
    by (intro arg_cong [where f = "\<lambda>x. svg @ concat x"] map_cong refl) (simp only: t)
  then have eq: "render_contours B c sx sy ox oy ?n contourData 0 svg =
      svg @ concat (map ?element [0..<?n])"
    by (simp only: element)
  have first: "?sw 0 = cfg_strokeMin c" "?op 0 = cfg_opacityMax c"
    by simp_all
  have last: "?sw (?n - 1) = cfg_strokeMax c" "?op (?n - 1) = cfg_opacityMin c" if "1 < ?n"
  proof -
    from that have "real (?n - 1) / (real ?n - 1) = 1"
      by (simp add: of_nat_diff)
    with that show "?sw (?n - 1) = cfg_strokeMax c" "?op (?n - 1) = cfg_opacityMin c"
      by simp_all
  qed
  show ?thesis
    unfolding Let_def
  proof (intro conjI impI)
    show "render_contours B c sx sy ox oy ?n contourData 0 svg =
      svg @ concat (map ?element [0..<?n])"
      by (rule eq)
    show "?sw 0 = cfg_strokeMin c" by (rule first)
    show "?op 0 = cfg_opacityMax c" by (rule first)
    show "?sw (?n - 1) = cfg_strokeMax c" if "1 < ?n" using that by (rule last)
    show "?op (?n - 1) = cfg_opacityMin c" if "1 < ?n" using that by (rule last)
  qed
qed

text \<open>
  Three empty contours, widths from 2 to 4 and opacities from 1 down to 0, with a
  conversion to text that tells the six values apart.
\<close>

theorem contour_styles_witness:
  \<open>(1 :: nat) \<le> length [\<lparr>coordinates = []\<rparr>, \<lparr>coordinates = []\<rparr>, \<lparr>coordinates = []\<rparr>] \<and>
   render_contours
     \<lparr>num_str = (\<lambda>x. if x = 0 then ''0'' else if x = 1 / 2 then ''0.5'' else if x = 1 then ''1''
                     else if x = 2 then ''2'' else if x = 3 then ''3'' else ''4'')\<rparr>
     \<lparr>cfg_width = 100, cfg_height = 50, cfg_gridWidth = 4, cfg_gridHeight = 3, cfg_density = 3,
      cfg_freq = 5, cfg_amplitude = 1, cfg_strokeMin = 2, cfg_strokeMax = 4,
      cfg_opacityMin = 0, cfg_opacityMax = 1, cfg_bias = 0, cfg_seed = 7,
      cfg_strokeColor = ''red'', cfg_bgColor = ''white''\<rparr>
     1 1 0 0 3 [\<lparr>coordinates = []\<rparr>, \<lparr>coordinates = []\<rparr>, \<lparr>coordinates = []\<rparr>] 0 []
   = ''<path d="" fill="none" stroke="red" stroke-width="2" stroke-opacity="1"''
     @ '' stroke-linejoin="round" stroke-linecap="round"/>''
     @ ''<path d="" fill="none" stroke="red" stroke-width="3" stroke-opacity="0.5"''
     @ '' stroke-linejoin="round" stroke-linecap="round"/>''
     @ ''<path d="" fill="none" stroke="red" stroke-width="4" stroke-opacity="0"''
     @ '' stroke-linejoin="round" stroke-linecap="round"/>''\<close>
  using contour_styles
    [where contourData = "[\<lparr>coordinates = []\<rparr>, \<lparr>coordinates = []\<rparr>, \<lparr>coordinates = []\<rparr>]"
       and B = "\<lparr>num_str = (\<lambda>x. if x = 0 then ''0'' else if x = 1 / 2 then ''0.5''
                     else if x = 1 then ''1'' else if x = 2 then ''2'' else if x = 3 then ''3''
                     else ''4'')\<rparr>"
       and c = "\<lparr>cfg_width = 100, cfg_height = 50, cfg_gridWidth = 4, cfg_gridHeight = 3, cfg_density = 3,
          cfg_freq = 5, cfg_amplitude = 1, cfg_strokeMin = 2, cfg_strokeMax = 4,
          cfg_opacityMin = 0, cfg_opacityMax = 1, cfg_bias = 0, cfg_seed = 7,
          cfg_strokeColor = ''red'', cfg_bgColor = ''white''\<rparr>"
       and sx = 1 and sy = 1 and ox = 0 and oy = 0 and svg = "[]"]
  by (simp add: Let_def contourToPath_def trim_def upt_rec [of 0] upt_rec [of 1] upt_rec [of 2])

lemma resolve_options_fst:
  "fst (resolve_options options w) =
     \<lparr>cfg_width = or_num (opt_width options) 100,
      cfg_height = or_num (opt_height options) 56.25,
      cfg_gridWidth = or_num (opt_gridWidth options) 160,
      cfg_gridHeight = or_num (opt_gridHeight options) 90,
      cfg_density = or_num (opt_density options) 10,
      cfg_freq = or_num (opt_freq options) 5,
      cfg_amplitude = or_num (opt_amplitude options) 1.0,
      cfg_strokeMin = if_defined (opt_strokeMin options) 0.16,
      cfg_strokeMax = if_defined (opt_strokeMax options) 0.26,
      cfg_opacityMin = if_defined (opt_opacityMin options) 0.5,
      cfg_opacityMax = if_defined (opt_opacityMax options) 1.0,
      cfg_bias = or_num (opt_bias options) 0,
      cfg_seed = (case opt_seed options of
                    Some s \<Rightarrow> s
                  | None \<Rightarrow> \<lfloor>binary64_round (rand_src w (rand_pos w) * 1000000000)\<rfloor>),
      cfg_strokeColor = or_str (opt_strokeColor options) ''#888888'',
      cfg_bgColor = or_str (opt_backgroundColor options) ''transparent''\<rparr>"
  by (cases "opt_seed options")
     (simp_all only: resolve_options_def Let_def Math_random_def option.case prod.case fst_conv)

lemma resolve_options_snd:
  "snd (resolve_options options w) =
     (case opt_seed options of Some s \<Rightarrow> w | None \<Rightarrow> w\<lparr>rand_pos := Suc (rand_pos w)\<rparr>)"
  by (cases "opt_seed options")
     (simp_all only: resolve_options_def Let_def Math_random_def option.case prod.case snd_conv)

lemma generateField_length:
  "length (generateField gridW gridH freq amplitude seed) = gridH * gridW"
  by (simp only: generateField_def generateField_run_unfold fst_conv grid_length)

lemma or_num_nonzero: "b \<noteq> 0 \<Longrightarrow> or_num v b \<noteq> 0"
  by (simp add: or_num_def js_or_def split: option.split)

lemma run_field_nonempty: "run_field (fst (resolve_options options w)) \<noteq> []"
proof -
  let ?c = "fst (resolve_options options w)"
  have "cfg_gridWidth ?c \<noteq> 0" "cfg_gridHeight ?c \<noteq> 0"
    by (simp_all add: resolve_options_fst or_num_nonzero)
  then have "length (run_field ?c) \<noteq> 0"
    by (simp add: run_field_def generateField_length)
  then show ?thesis by auto
qed

lemma run_levels_length:
  "\<exists>levels. run_levels (fst (resolve_options options w)) = Some levels
     \<and> length levels = cfg_density (fst (resolve_options options w))"
  by (simp add: run_levels_def compute_levels_map [OF run_field_nonempty])

text \<open>
  Defaulting is not the same for all options (lines 136 to 157). For \<^verbatim>\<open>width\<close>, \<^verbatim>\<open>height\<close>,
  \<^verbatim>\<open>gridWidth\<close>, \<^verbatim>\<open>gridHeight\<close>, \<^verbatim>\<open>density\<close>, \<^verbatim>\<open>freq\<close>, \<^verbatim>\<open>amplitude\<close>, \<^verbatim>\<open>bias\<close>,
  \<^verbatim>\<open>strokeColor\<close> and \<^verbatim>\<open>backgroundColor\<close> a value of 0 (or the empty string) is replaced by
  the default as an absent one is, so that \<^verbatim>\<open>density: 0\<close> gives 10 thresholds and
  \<^verbatim>\<open>amplitude: 0\<close> the amplitude 1; \<^verbatim>\<open>strokeMin\<close>, \<^verbatim>\<open>strokeMax\<close>, \<^verbatim>\<open>opacityMin\<close>,
  \<^verbatim>\<open>opacityMax\<close> and \<^verbatim>\<open>seed\<close> take their default only when absent, and keep a 0. The
  defaults are the constants of the code.
\<close>

lemma option_defaulting:
  "(let c = fst (resolve_options options w) in
      cfg_width c = (case opt_width options of None \<Rightarrow> 100 | Some x \<Rightarrow> if x = 0 then 100 else x) \<and>
      cfg_height c = (case opt_height options of None \<Rightarrow> 56.25 | Some x \<Rightarrow> if x = 0 then 56.25 else x) \<and>
      cfg_gridWidth c = (case opt_gridWidth options of None \<Rightarrow> 160 | Some x \<Rightarrow> if x = 0 then 160 else x) \<and>
      cfg_gridHeight c = (case opt_gridHeight options of None \<Rightarrow> 90 | Some x \<Rightarrow> if x = 0 then 90 else x) \<and>
      cfg_density c = (case opt_density options of None \<Rightarrow> 10 | Some x \<Rightarrow> if x = 0 then 10 else x) \<and>
      cfg_freq c = (case opt_freq options of None \<Rightarrow> 5 | Some x \<Rightarrow> if x = 0 then 5 else x) \<and>
      cfg_amplitude c = (case opt_amplitude options of None \<Rightarrow> 1 | Some x \<Rightarrow> if x = 0 then 1 else x) \<and>
      cfg_bias c = (case opt_bias options of None \<Rightarrow> 0 | Some x \<Rightarrow> if x = 0 then 0 else x) \<and>
      cfg_strokeColor c =
        (case opt_strokeColor options of None \<Rightarrow> ''#888888'' | Some s \<Rightarrow> if s = [] then ''#888888'' else s) \<and>
      cfg_bgColor c =
        (case opt_backgroundColor options of
           None \<Rightarrow> ''transparent'' | Some s \<Rightarrow> if s = [] then ''transparent'' else s) \<and>
      cfg_strokeMin c = (case opt_strokeMin options of None \<Rightarrow> 0.16 | Some x \<Rightarrow> x) \<and>
      cfg_strokeMax c = (case opt_strokeMax options of None \<Rightarrow> 0.26 | Some x \<Rightarrow> x) \<and>
      cfg_opacityMin c = (case opt_opacityMin options of None \<Rightarrow> 0.5 | Some x \<Rightarrow> x) \<and>
      cfg_opacityMax c = (case opt_opacityMax options of None \<Rightarrow> 1 | Some x \<Rightarrow> x) \<and>
      cfg_seed c =
        (case opt_seed options of
           None \<Rightarrow> \<lfloor>binary64_round (rand_src w (rand_pos w) * 1000000000)\<rfloor>
         | Some s \<Rightarrow> s) \<and>
      (opt_density options = Some 0 \<longrightarrow>
         (\<exists>levels. run_levels c = Some levels \<and> length levels = 10)))"
proof -
  let ?c = "fst (resolve_options options w)"
  have num: "or_num v b = (case v of None \<Rightarrow> b | Some x \<Rightarrow> if x = 0 then b else x)"
    for v :: "'a::zero option" and b
    by (simp add: or_num_def js_or_def split: option.split)
  have str: "or_str v b = (case v of None \<Rightarrow> b | Some s \<Rightarrow> if s = [] then b else s)" for v b
    by (simp add: or_str_def split: option.split)
  have def: "if_defined v b = (case v of None \<Rightarrow> b | Some x \<Rightarrow> x)" for v :: "'a option" and b
    by (simp add: if_defined_def)
  have "cfg_width ?c = (case opt_width options of None \<Rightarrow> 100 | Some x \<Rightarrow> if x = 0 then 100 else x)"
    by (simp add: resolve_options_fst num split: option.split)
  moreover have "cfg_height ?c =
      (case opt_height options of None \<Rightarrow> 56.25 | Some x \<Rightarrow> if x = 0 then 56.25 else x)"
    by (simp add: resolve_options_fst num split: option.split)
  moreover have "cfg_gridWidth ?c =
      (case opt_gridWidth options of None \<Rightarrow> 160 | Some x \<Rightarrow> if x = 0 then 160 else x)"
    by (simp add: resolve_options_fst num split: option.split)
  moreover have "cfg_gridHeight ?c =
      (case opt_gridHeight options of None \<Rightarrow> 90 | Some x \<Rightarrow> if x = 0 then 90 else x)"
    by (simp add: resolve_options_fst num split: option.split)
  moreover have "cfg_density ?c =
      (case opt_density options of None \<Rightarrow> 10 | Some x \<Rightarrow> if x = 0 then 10 else x)"
    by (simp add: resolve_options_fst num split: option.split)
  moreover have "cfg_freq ?c = (case opt_freq options of None \<Rightarrow> 5 | Some x \<Rightarrow> if x = 0 then 5 else x)"
    by (simp add: resolve_options_fst num split: option.split)
  moreover have "cfg_amplitude ?c =
      (case opt_amplitude options of None \<Rightarrow> 1 | Some x \<Rightarrow> if x = 0 then 1 else x)"
    by (simp add: resolve_options_fst num split: option.split)
  moreover have "cfg_bias ?c = (case opt_bias options of None \<Rightarrow> 0 | Some x \<Rightarrow> if x = 0 then 0 else x)"
    by (simp add: resolve_options_fst num split: option.split)
  moreover have "cfg_strokeColor ?c =
      (case opt_strokeColor options of None \<Rightarrow> ''#888888'' | Some s \<Rightarrow> if s = [] then ''#888888'' else s)"
    by (simp add: resolve_options_fst str split: option.split)
  moreover have "cfg_bgColor ?c =
      (case opt_backgroundColor options of
         None \<Rightarrow> ''transparent'' | Some s \<Rightarrow> if s = [] then ''transparent'' else s)"
    by (simp add: resolve_options_fst str split: option.split)
  moreover have "cfg_strokeMin ?c = (case opt_strokeMin options of None \<Rightarrow> 0.16 | Some x \<Rightarrow> x)"
    by (simp add: resolve_options_fst def split: option.split)
  moreover have "cfg_strokeMax ?c = (case opt_strokeMax options of None \<Rightarrow> 0.26 | Some x \<Rightarrow> x)"
    by (simp add: resolve_options_fst def split: option.split)
  moreover have "cfg_opacityMin ?c = (case opt_opacityMin options of None \<Rightarrow> 0.5 | Some x \<Rightarrow> x)"
    by (simp add: resolve_options_fst def split: option.split)
  moreover have "cfg_opacityMax ?c = (case opt_opacityMax options of None \<Rightarrow> 1 | Some x \<Rightarrow> x)"
    by (simp add: resolve_options_fst def split: option.split)
  moreover have "cfg_seed ?c =
      (case opt_seed options of
           None \<Rightarrow> \<lfloor>binary64_round (rand_src w (rand_pos w) * 1000000000)\<rfloor>
         | Some s \<Rightarrow> s)"
    by (simp add: resolve_options_fst split: option.split)
  moreover have "\<exists>levels. run_levels ?c = Some levels \<and> length levels = 10"
    if "opt_density options = Some 0"
  proof -
    from that have "cfg_density ?c = 10"
      by (simp add: resolve_options_fst num split: option.split)
    with run_levels_length [of options w] show ?thesis by simp
  qed
  ultimately show ?thesis
    unfolding Let_def by blast
qed

text \<open>Every option given as 0, or as the empty string.\<close>

lemma option_defaulting_zero:
  "(let c = fst (resolve_options
        \<lparr>opt_width = Some 0, opt_height = Some 0, opt_gridWidth = Some 0, opt_gridHeight = Some 0,
         opt_density = Some 0, opt_freq = Some 0, opt_amplitude = Some 0, opt_strokeMin = Some 0,
         opt_strokeMax = Some 0, opt_opacityMin = Some 0, opt_opacityMax = Some 0, opt_bias = Some 0,
         opt_seed = Some 0, opt_strokeColor = Some [], opt_backgroundColor = Some []\<rparr>
        \<lparr>rand_src = (\<lambda>n. 1 / 2), rand_pos = 0, d3 = None\<rparr>)
    in cfg_width c = 100 \<and> cfg_height c = 56.25 \<and> cfg_gridWidth c = 160 \<and> cfg_gridHeight c = 90 \<and>
       cfg_density c = 10 \<and> cfg_freq c = 5 \<and> cfg_amplitude c = 1 \<and> cfg_bias c = 0 \<and>
       cfg_strokeColor c = ''#888888'' \<and> cfg_bgColor c = ''transparent'' \<and>
       cfg_strokeMin c = 0 \<and> cfg_strokeMax c = 0 \<and> cfg_opacityMin c = 0 \<and> cfg_opacityMax c = 0 \<and>
       cfg_seed c = 0 \<and> (\<exists>levels. run_levels c = Some levels \<and> length levels = 10))"
  using option_defaulting
    [of "\<lparr>opt_width = Some 0, opt_height = Some 0, opt_gridWidth = Some 0, opt_gridHeight = Some 0,
         opt_density = Some 0, opt_freq = Some 0, opt_amplitude = Some 0, opt_strokeMin = Some 0,
         opt_strokeMax = Some 0, opt_opacityMin = Some 0, opt_opacityMax = Some 0, opt_bias = Some 0,
         opt_seed = Some 0, opt_strokeColor = Some [], opt_backgroundColor = Some []\<rparr>"
        "\<lparr>rand_src = (\<lambda>n. 1 / 2), rand_pos = 0, d3 = None\<rparr>"]
  by (simp add: Let_def)

text \<open>
  The default seed when \<^verbatim>\<open>Math.random()\<close> returns the double nearest to 0.3, which is
  \<open>5404319552844595 / 2 ^ 54\<close>, a little below 0.3: the product with \<open>10 ^ 9\<close> is within a
  quarter of a quantum of 300000000 and rounds to it.
\<close>

lemma default_seed_rounded:
  "cfg_seed (fst (resolve_options no_options
      \<lparr>rand_src = (\<lambda>n. 5404319552844595 / 2 ^ 54), rand_pos = 0, d3 = None\<rparr>)) = 300000000"
  by (simp add: resolve_options_fst no_options_def binary64_round_binade [where k = 28]
      round_even_def power_int_minus field_simps)

text \<open>
  Claim C10 says that an empty \<^verbatim>\<open>strokeColor\<close>, like an absent one, is replaced by the
  documented default. The options are documented in the README, to which the comment
  above \<^verbatim>\<open>generateWavelineSvg\<close> refers for them, and the default it gives for
  \<^verbatim>\<open>strokeColor\<close> is \<^verbatim>\<open>#d4d4d4\<close>. Line 156 falls back to \<^verbatim>\<open>#888888\<close>.
\<close>

theorem strokeColor_default_not_documented:
  "cfg_strokeColor (fst (resolve_options (no_options\<lparr>opt_strokeColor := Some []\<rparr>) w)) = ''#888888'' \<and>
   cfg_strokeColor (fst (resolve_options no_options w)) = ''#888888'' \<and>
   ''#888888'' \<noteq> README_strokeColor"
  by (simp add: resolve_options_fst no_options_def or_str_def README_strokeColor_def)

lemma run_field_cong:
  "cfg_gridWidth c' = cfg_gridWidth c \<Longrightarrow> cfg_gridHeight c' = cfg_gridHeight c \<Longrightarrow>
   cfg_freq c' = cfg_freq c \<Longrightarrow> cfg_amplitude c' = cfg_amplitude c \<Longrightarrow> cfg_seed c' = cfg_seed c \<Longrightarrow>
   run_field c' = run_field c"
  by (simp add: run_field_def)

lemma run_levels_cong:
  "run_field c' = run_field c \<Longrightarrow> cfg_density c' = cfg_density c \<Longrightarrow> cfg_bias c' = cfg_bias c \<Longrightarrow>
   run_levels c' = run_levels c"
  by (simp add: run_levels_def)

text \<open>
  Claim C9. With the seed and the terrain parameters fixed, two runs that differ only in
  \<^verbatim>\<open>strokeColor\<close>, \<^verbatim>\<open>strokeMin\<close>, \<^verbatim>\<open>strokeMax\<close>, \<^verbatim>\<open>opacityMin\<close>, \<^verbatim>\<open>opacityMax\<close> and
  \<^verbatim>\<open>backgroundColor\<close> have the same field and the same thresholds, whatever the state of
  the world at each run.
\<close>

theorem presentation_leaves_terrain:
  assumes "opt_seed options = Some seed"
  shows
    "(let options' = options\<lparr>opt_strokeColor := strokeColor, opt_strokeMin := strokeMin,
                               opt_strokeMax := strokeMax, opt_opacityMin := opacityMin,
                               opt_opacityMax := opacityMax, opt_backgroundColor := backgroundColor\<rparr>;
          c = fst (resolve_options options w);
          c' = fst (resolve_options options' w')
      in run_field c' = run_field c \<and> run_levels c' = run_levels c)"
proof -
  let ?options' = "options\<lparr>opt_strokeColor := strokeColor, opt_strokeMin := strokeMin,
                            opt_strokeMax := strokeMax, opt_opacityMin := opacityMin,
                            opt_opacityMax := opacityMax, opt_backgroundColor := backgroundColor\<rparr>"
  let ?c = "fst (resolve_options options w)" and ?c' = "fst (resolve_options ?options' w')"
  have field: "run_field ?c' = run_field ?c"
    by (rule run_field_cong) (simp_all add: resolve_options_fst assms)
  then have "run_levels ?c' = run_levels ?c"
    by (rule run_levels_cong) (simp_all add: resolve_options_fst)
  with field show ?thesis
    unfolding Let_def by (rule conjI)
qed

text \<open>Seed 12345 with the default style, and with a style of its own, in two worlds.\<close>

theorem presentation_leaves_terrain_witness:
  "opt_seed (no_options\<lparr>opt_seed := Some 12345\<rparr>) = Some 12345 \<and>
   run_field (fst (resolve_options
      (no_options\<lparr>opt_seed := Some 12345, opt_strokeColor := Some ''red'', opt_strokeMin := Some 1,
                   opt_strokeMax := Some 2, opt_opacityMin := Some 0, opt_opacityMax := Some 1,
                   opt_backgroundColor := Some ''white''\<rparr>)
      \<lparr>rand_src = (\<lambda>n. 1 / 2), rand_pos = 5, d3 = None\<rparr>))
   = run_field (fst (resolve_options (no_options\<lparr>opt_seed := Some 12345\<rparr>)
      \<lparr>rand_src = (\<lambda>n. 0), rand_pos = 0, d3 = None\<rparr>))"
  using presentation_leaves_terrain
    [where options = "no_options\<lparr>opt_seed := Some 12345\<rparr>" and seed = 12345
       and strokeColor = "Some ''red''" and strokeMin = "Some 1" and strokeMax = "Some 2"
       and opacityMin = "Some 0" and opacityMax = "Some 1" and backgroundColor = "Some ''white''"
       and w = "\<lparr>rand_src = (\<lambda>n. 0), rand_pos = 0, d3 = None\<rparr>"
       and w' = "\<lparr>rand_src = (\<lambda>n. 1 / 2), rand_pos = 5, d3 = None\<rparr>"]
  by (simp add: Let_def no_options_def)

lemma d3_contours_resolved: "d3_contours (snd (resolve_options options w)) = d3_contours w"
  by (simp add: resolve_options_snd d3_contours_def split: option.split)

text \<open>
  Claim C6, as amended. If \<^verbatim>\<open>d3.contours\<close> is not available when \<^verbatim>\<open>generateWavelineSvg\<close> is
  called, the call throws the error that names d3-contour, for every options object, and
  returns no document: no field, threshold, contour or markup is computed. The options are
  defaulted before the check. When a seed is given the world is left as it was; when the
  seed is absent one value of \<^verbatim>\<open>Math.random()\<close> has been drawn, and nothing else changed.
\<close>

theorem missing_d3_throws:
  assumes "d3_contours w = None"
  shows "fst (generateWavelineSvg B options w) =
           Throws ''d3-contour is required. Load it before waveline-bg.js.'' \<and>
         snd (generateWavelineSvg B options w) =
           (case options of
              None \<Rightarrow> w\<lparr>rand_pos := Suc (rand_pos w)\<rparr>
            | Some given \<Rightarrow>
                (case opt_seed given of
                   None \<Rightarrow> w\<lparr>rand_pos := Suc (rand_pos w)\<rparr>
                 | Some seed \<Rightarrow> w))"
proof -
  let ?given = "case options of None \<Rightarrow> no_options | Some given \<Rightarrow> given"
  have run: "generateWavelineSvg B options w =
      (Throws ''d3-contour is required. Load it before waveline-bg.js.'',
       snd (resolve_options ?given w))"
    using assms d3_contours_resolved [of ?given w]
    by (simp add: generateWavelineSvg_def Let_def split_beta)
  have "snd (resolve_options ?given w) =
      (case options of
         None \<Rightarrow> w\<lparr>rand_pos := Suc (rand_pos w)\<rparr>
       | Some given \<Rightarrow>
           (case opt_seed given of
              None \<Rightarrow> w\<lparr>rand_pos := Suc (rand_pos w)\<rparr>
            | Some seed \<Rightarrow> w))"
    by (simp add: resolve_options_snd no_options_def split: option.split)
  with run show ?thesis by simp
qed

text \<open>A \<^verbatim>\<open>d3\<close> without \<^verbatim>\<open>contours\<close>, and a seed.\<close>

theorem missing_d3_throws_witness:
  "d3_contours \<lparr>rand_src = (\<lambda>n. 0), rand_pos = 0, d3 = Some \<lparr>contours = None\<rparr>\<rparr> = None \<and>
   generateWavelineSvg \<lparr>num_str = (\<lambda>x. [])\<rparr>
     (Some (no_options\<lparr>opt_seed := Some 12345\<rparr>))
     \<lparr>rand_src = (\<lambda>n. 0), rand_pos = 0, d3 = Some \<lparr>contours = None\<rparr>\<rparr>
   = (Throws ''d3-contour is required. Load it before waveline-bg.js.'',
      \<lparr>rand_src = (\<lambda>n. 0), rand_pos = 0, d3 = Some \<lparr>contours = None\<rparr>\<rparr>)"
  using missing_d3_throws
    [where w = "\<lparr>rand_src = (\<lambda>n. 0), rand_pos = 0, d3 = Some \<lparr>contours = None\<rparr>\<rparr>"
       and B = "\<lparr>num_str = (\<lambda>x. [])\<rparr>"
       and options = "Some (no_options\<lparr>opt_seed := Some 12345\<rparr>)"]
  by (simp add: d3_contours_def no_options_def prod_eq_iff)

text \<open>
  Claim C6 as it is written fails: without \<^verbatim>\<open>d3\<close> and with the options object \<^verbatim>\<open>{}\<close>,
  the default seed is drawn from \<^verbatim>\<open>Math.random()\<close> on line 155, before the check on line
  159 throws: the call has moved the generator on by one value.
\<close>

theorem missing_d3_draws_random:
  "d3_contours \<lparr>rand_src = (\<lambda>n. 0), rand_pos = 0, d3 = None\<rparr> = None \<and>
   generateWavelineSvg \<lparr>num_str = (\<lambda>x. [])\<rparr> (Some no_options)
     \<lparr>rand_src = (\<lambda>n. 0), rand_pos = 0, d3 = None\<rparr>
   = (Throws ''d3-contour is required. Load it before waveline-bg.js.'',
      \<lparr>rand_src = (\<lambda>n. 0), rand_pos = 1, d3 = None\<rparr>) \<and>
   \<lparr>rand_src = (\<lambda>n. 0 :: real), rand_pos = 1, d3 = None\<rparr>
     \<noteq> \<lparr>rand_src = (\<lambda>n. 0), rand_pos = 0, d3 = None\<rparr>"
  by (simp add: generateWavelineSvg_def d3_contours_def resolve_options_def no_options_def
      Math_random_def Let_def)

text \<open>
  Claim C4 says that two distinct seeds give two distinct clip identifiers, as the
  comment on lines 194 and 195 does. The identifier is the seed modulo 999983: the seeds
  0 and 999983 share one.
\<close>

theorem clipId_collision:
  "clipId 0 = ''wlbg-0'' \<and> clipId 999983 = ''wlbg-0''"
  by (simp add: clipId_def js_rem_def int_str_def nat_str_digit digit_char_def)

end
